theory Spec2Isabelle
  imports
    Complex_Main
    "HOL-Library.Char_ord"
    "HOL-Library.List_Lexorder"
    "HOL-Library.Product_Lexorder"
    "HOL-Library.Multiset"
begin

section \<open>Strings as the two build scripts use them\<close>

text \<open>
  A JavaScript string is modelled as a \<^typ>\<open>string\<close> whose characters are the code units
  below 256. Of the white space that \<^verbatim>\<open>String.prototype.trim\<close> removes, the code units in
  that range are TAB, LF, VT, FF, CR, SPACE and NO-BREAK SPACE.
\<close>

definition js_whitespace :: "char \<Rightarrow> bool" where
  "js_whitespace c = (of_char c \<in> {9, 10, 11, 12, 13, 32, 160 :: nat})"

definition trim :: "string \<Rightarrow> string" where
  "trim s = rev (dropWhile js_whitespace (rev (dropWhile js_whitespace s)))"

text \<open>
  \<^verbatim>\<open>s.split(',')\<close>: the segments between the separators, in order; a string without a
  separator (the empty string too) is one segment.
\<close>

fun split :: "char \<Rightarrow> string \<Rightarrow> string list" where
  "split sep [] = [[]]"
| "split sep (c # cs) =
     (if c = sep then [] # split sep cs
      else (case split sep cs of [] \<Rightarrow> [[c]] | seg # segs \<Rightarrow> (c # seg) # segs))"

definition lower_char :: "char \<Rightarrow> char" where
  "lower_char c =
     (let n = (of_char c :: nat)
      in if (65 \<le> n \<and> n \<le> 90) \<or> (192 \<le> n \<and> n \<le> 222 \<and> n \<noteq> 215)
         then char_of (n + 32) else c)"

definition toLowerCase :: "string \<Rightarrow> string" where
  "toLowerCase s = map lower_char s"

text \<open>
  \<^verbatim>\<open>path.extname\<close> and \<^verbatim>\<open>path.parse(f).name\<close> of Node's POSIX \<^verbatim>\<open>path\<close> module, on a
  directory entry name (a name holds no separator). The extension starts at the last dot;
  there is none when the name has no dot, when its only dot is its first character, and for
  the name \<^verbatim>\<open>..\<close>.
\<close>

fun last_dot :: "string \<Rightarrow> nat option" where
  "last_dot [] = None"
| "last_dot (c # cs) =
     (case last_dot cs of
        Some i \<Rightarrow> Some (Suc i)
      | None \<Rightarrow> if c = CHR ''.'' then Some 0 else None)"

definition extname :: "string \<Rightarrow> string" where
  "extname f =
     (case last_dot f of
        None \<Rightarrow> []
      | Some i \<Rightarrow> if i = 0 \<or> f = ''..'' then [] else drop i f)"

definition parse_name :: "string \<Rightarrow> string" where
  "parse_name f = take (length f - length (extname f)) f"

section \<open>Values read from a sidecar file\<close>

text \<open>
  What \<^verbatim>\<open>yaml.load\<close> returns, and what a property access on it yields. Numbers are the
  integral ones; a YAML timestamp loads as a Date object, kept here by its time value.
\<close>

datatype jsval =
    JUndefined
  | JNull
  | JBool bool
  | JNum int
  | JStr string
  | JDate int
  | JArr "jsval list"
  | JObj "(string \<times> jsval) list"

fun truthy :: "jsval \<Rightarrow> bool" where
  "truthy JUndefined = False"
| "truthy JNull = False"
| "truthy (JBool b) = b"
| "truthy (JNum n) = (n \<noteq> 0)"
| "truthy (JStr s) = (s \<noteq> [])"
| "truthy (JDate t) = True"
| "truthy (JArr vs) = True"
| "truthy (JObj kvs) = True"

text \<open>\<^verbatim>\<open>v.k\<close> for one of the sidecar keys: defined on an object that has the key only.\<close>

fun get_prop :: "jsval \<Rightarrow> string \<Rightarrow> jsval" where
  "get_prop (JObj kvs) k = (case map_of kvs k of Some v \<Rightarrow> v | None \<Rightarrow> JUndefined)"
| "get_prop v k = JUndefined"

text \<open>\<^verbatim>\<open>v || d\<close>\<close>

definition or_else :: "jsval \<Rightarrow> jsval \<Rightarrow> jsval" where
  "or_else v d = (if truthy v then v else d)"

section \<open>The filesystem pipeline: technology resolver\<close>

record tech_entry =
  name :: string
  icon :: "string option"

text \<open>
  \<^verbatim>\<open>processTechString\<close>. The icon probe \<^verbatim>\<open>fs.existsSync(path.join('public', p))\<close> is the
  predicate \<open>public_exists\<close> on the path below \<^verbatim>\<open>public\<close>.
\<close>

definition resolve_icon :: "(string \<Rightarrow> bool) \<Rightarrow> string \<Rightarrow> tech_entry" where
  "resolve_icon public_exists techName =
     (let svg = ''icons/'' @ toLowerCase techName @ ''.svg'';
          png = ''icons/'' @ toLowerCase techName @ ''.png''
      in if public_exists svg then \<lparr>name = techName, icon = Some (''/portfolio/'' @ svg)\<rparr>
         else if public_exists png then \<lparr>name = techName, icon = Some (''/portfolio/'' @ png)\<rparr>
         else \<lparr>name = techName, icon = None\<rparr>)"

definition techNames :: "string \<Rightarrow> string list" where
  "techNames techString = filter (\<lambda>t. t \<noteq> []) (map trim (split CHR '','' techString))"

fun processTechString :: "(string \<Rightarrow> bool) \<Rightarrow> jsval \<Rightarrow> tech_entry list" where
  "processTechString public_exists (JStr techString) =
     (if techString = [] then []
      else map (resolve_icon public_exists) (techNames techString))"
| "processTechString public_exists v = []"

section \<open>The filesystem pipeline: what it reads and what it prints\<close>

text \<open>
  The part of the file system the build observes. A project directory is known by what
  \<^verbatim>\<open>readFileSync\<close> and \<^verbatim>\<open>yaml.load\<close> make of its \<^verbatim>\<open>project.yml\<close> and by what
  \<^verbatim>\<open>readdirSync\<close> lists in it (\<open>None\<close>: the call throws), and by what \<^verbatim>\<open>existsSync\<close>
  answers for a file name joined to its path; the listing and that answer are two
  observations, which differ for a listed link that does not resolve, for a directory that
  cannot be searched and on a file system that ignores case.
\<close>

datatype sidecar =
    NoSidecar           \<comment> \<open>\<^verbatim>\<open>readFileSync\<close> throws: there is no readable \<^verbatim>\<open>project.yml\<close>\<close>
  | Malformed           \<comment> \<open>\<^verbatim>\<open>yaml.load\<close> throws\<close>
  | Loaded jsval        \<comment> \<open>the loaded document\<close>

record project_dir =
  sidecar :: sidecar
  listing :: "string list option"
  file_exists :: "string \<Rightarrow> bool"

datatype entry =
    NoStat              \<comment> \<open>\<^verbatim>\<open>statSync\<close> throws (a dangling link)\<close>
  | NotDirectory
  | Directory project_dir

datatype root =
    RootAbsent          \<comment> \<open>\<^verbatim>\<open>existsSync(projectsDir)\<close> is false\<close>
  | RootUnreadable      \<comment> \<open>it exists and \<^verbatim>\<open>readdirSync\<close> throws\<close>
  | RootEntries "(string \<times> entry) list"

record asset =
  path :: string
  thumbnail :: "string option"

record project =
  project_id :: nat
  title :: jsval
  subtitle :: jsval
  description :: jsval
  start_date :: jsval
  end_date :: jsval
  tech :: "tech_entry list"
  images :: "asset list"
  videos :: "asset list"
  image_layout :: jsval
  github_url :: jsval
  live_url :: jsval

text \<open>
  The manifest is kept as the array handed to \<^verbatim>\<open>JSON.stringify\<close>; \<open>None\<close> is a manifest
  file that does not exist. \<open>writable\<close> tells whether serialising and \<^verbatim>\<open>writeFileSync\<close>
  succeed.
\<close>

record fs_world =
  projects_root :: root
  public_exists :: "string \<Rightarrow> bool"
  manifest :: "project list option"
  writable :: bool

text \<open>The console, one entry per call; \<open>is_error\<close> marks the \<^verbatim>\<open>console.error\<close> calls.\<close>

datatype log =
    Scanning
  | RootNotFound string
  | Processing string
  | YamlError string
  | ImageScanError string
  | VideoScanError string
  | Added jsval
  | FoundImages nat
  | FoundVideos nat
  | Built nat
  | OutputPath string
  | Summary jsval nat nat
  | BuildError

fun is_error :: "log \<Rightarrow> bool" where
  "is_error (RootNotFound p) = True"
| "is_error (YamlError p) = True"
| "is_error (ImageScanError p) = True"
| "is_error (VideoScanError p) = True"
| "is_error BuildError = True"
| "is_error l = False"

datatype exn = StatFailed string | ReaddirFailed string | WriteFailed string

definition projectsDir :: string where
  "projectsDir = ''public/projects''"

text \<open>\<^verbatim>\<open>path.join(projectsDir, folder)\<close> for an entry name of the root.\<close>

definition join_path :: "string \<Rightarrow> string \<Rightarrow> string" where
  "join_path dir file = dir @ ''/'' @ file"

text \<open>The public path of a file: the prefix, \<^verbatim>\<open>path.basename(projectPath)\<close>, the file name.\<close>

definition public_path :: "string \<Rightarrow> string \<Rightarrow> string" where
  "public_path folder file = ''/portfolio/projects/'' @ folder @ ''/'' @ file"

subsection \<open>Metadata reader\<close>

fun readProjectYaml :: "string \<Rightarrow> sidecar \<Rightarrow> log list \<times> jsval" where
  "readProjectYaml projectPath (Loaded v) = ([], v)"
| "readProjectYaml projectPath NoSidecar = ([YamlError projectPath], JNull)"
| "readProjectYaml projectPath Malformed = ([YamlError projectPath], JNull)"

subsection \<open>Asset scanner\<close>

definition imageExtensions :: "string list" where
  "imageExtensions = [''.jpg'', ''.jpeg'', ''.png'', ''.gif'', ''.webp'', ''.svg'']"

definition videoExtensions :: "string list" where
  "videoExtensions = [''.mp4'', ''.webm'', ''.mov'', ''.avi'', ''.mkv'']"

definition thumbnailExtensions :: "string list" where
  "thumbnailExtensions = [''.jpg'', ''.jpeg'', ''.png'', ''.webp'']"

fun scan_images :: "string \<Rightarrow> string list \<Rightarrow> asset list" where
  "scan_images folder [] = []"
| "scan_images folder (file # files) =
     (if toLowerCase (extname file) \<in> set imageExtensions
      then \<lparr>path = public_path folder file, thumbnail = Some (public_path folder file)\<rparr>
             # scan_images folder files
      else scan_images folder files)"

fun scanProjectImages :: "string \<Rightarrow> string list option \<Rightarrow> log list \<times> asset list" where
  "scanProjectImages folder (Some files) = ([], scan_images folder files)"
| "scanProjectImages folder None = ([ImageScanError (join_path projectsDir folder)], [])"

text \<open>The \<^verbatim>\<open>for ... break\<close> loop over the thumbnail extensions, for one video.\<close>

fun find_thumbnail :: "string \<Rightarrow> (string \<Rightarrow> bool) \<Rightarrow> string \<Rightarrow> string list \<Rightarrow> string option" where
  "find_thumbnail folder existsSync baseName [] = None"
| "find_thumbnail folder existsSync baseName (thumbExt # exts) =
     (let thumbFile = baseName @ ''-thumb'' @ thumbExt
      in if existsSync thumbFile then Some (public_path folder thumbFile)
         else find_thumbnail folder existsSync baseName exts)"

fun scan_videos :: "string \<Rightarrow> (string \<Rightarrow> bool) \<Rightarrow> string list \<Rightarrow> asset list" where
  "scan_videos folder existsSync [] = []"
| "scan_videos folder existsSync (file # files) =
     (if toLowerCase (extname file) \<in> set videoExtensions
      then \<lparr>path = public_path folder file,
            thumbnail = find_thumbnail folder existsSync (parse_name file) thumbnailExtensions\<rparr>
             # scan_videos folder existsSync files
      else scan_videos folder existsSync files)"

text \<open>
  \<^verbatim>\<open>scanProjectVideos\<close>, given the answers of \<^verbatim>\<open>existsSync\<close> for the names of the directory and
  what \<^verbatim>\<open>readdirSync\<close> lists.
\<close>

fun scanProjectVideos ::
  "string \<Rightarrow> (string \<Rightarrow> bool) \<Rightarrow> string list option \<Rightarrow> log list \<times> asset list" where
  "scanProjectVideos folder existsSync (Some files) = ([], scan_videos folder existsSync files)"
| "scanProjectVideos folder existsSync None = ([VideoScanError (join_path projectsDir folder)], [])"

subsection \<open>Assembly of the records\<close>

record build_state =
  console :: "log list"
  projects :: "project list"
  projectId :: nat

text \<open>The object literal of a project, with the id it gets.\<close>

definition build_project ::
  "(string \<Rightarrow> bool) \<Rightarrow> nat \<Rightarrow> jsval \<Rightarrow> asset list \<Rightarrow> asset list \<Rightarrow> project" where
  "build_project pub n projectData projectImages projectVideos =
     \<lparr>project_id = n,
      title = get_prop projectData ''title'',
      subtitle = or_else (get_prop projectData ''subtitle'') JNull,
      description = or_else (get_prop projectData ''description'') (JStr []),
      start_date = or_else (get_prop projectData ''start_date'') (JStr []),
      end_date = or_else (get_prop projectData ''end_date'') (JStr []),
      tech = processTechString pub (get_prop projectData ''tech''),
      images = projectImages,
      videos = projectVideos,
      image_layout = or_else (get_prop projectData ''image_layout'') (JStr ''grid''),
      github_url = or_else (get_prop projectData ''github_url'') JNull,
      live_url = or_else (get_prop projectData ''live_url'') JNull\<rparr>"

text \<open>The body of the \<^verbatim>\<open>forEach\<close> callback for an entry that is a directory.\<close>

definition process_project ::
  "(string \<Rightarrow> bool) \<Rightarrow> string \<Rightarrow> project_dir \<Rightarrow> build_state \<Rightarrow> build_state" where
  "process_project pub folder d st =
     (let projectPath = join_path projectsDir folder;
          (ylog, projectData) = readProjectYaml projectPath (sidecar d);
          seen = console st @ [Processing folder] @ ylog
      in if truthy projectData then
           (let (ilog, projectImages) = scanProjectImages folder (listing d);
                (vlog, projectVideos) = scanProjectVideos folder (file_exists d) (listing d);
                project = build_project pub (projectId st) projectData projectImages projectVideos
            in \<lparr>console =
                   seen @ ilog @ vlog @ [Added (get_prop projectData ''title'')]
                     @ (if length projectImages > 0 then [FoundImages (length projectImages)] else [])
                     @ (if length projectVideos > 0 then [FoundVideos (length projectVideos)] else []),
                 projects = projects st @ [project],
                 projectId = projectId st + 1\<rparr>)
         else st\<lparr>console := seen\<rparr>)"

text \<open>
  The \<^verbatim>\<open>forEach\<close> over the root's entries. A \<^verbatim>\<open>statSync\<close> that throws leaves the loop; the
  exception carries the console as it stood.
\<close>

fun process_folders ::
  "(string \<Rightarrow> bool) \<Rightarrow> (string \<times> entry) list \<Rightarrow> build_state \<Rightarrow> (exn \<times> log list) + build_state" where
  "process_folders pub [] st = Inr st"
| "process_folders pub ((folder, NoStat) # rest) st =
     Inl (StatFailed (join_path projectsDir folder), console st)"
| "process_folders pub ((folder, NotDirectory) # rest) st = process_folders pub rest st"
| "process_folders pub ((folder, Directory d) # rest) st =
     process_folders pub rest (process_project pub folder d st)"

subsection \<open>Manifest writer\<close>

text \<open>
  The comparator of the sort. \<open>toTime v\<close> is the time value of \<^verbatim>\<open>new Date(v)\<close>, \<open>None\<close> for
  an invalid date; the difference of two dates is then NaN, the result \<open>None\<close> here.
\<close>

definition compareEndDate :: "(jsval \<Rightarrow> int option) \<Rightarrow> project \<Rightarrow> project \<Rightarrow> int option" where
  "compareEndDate toTime a b =
     (if \<not> truthy (end_date a) \<and> \<not> truthy (end_date b) then Some 0
      else if \<not> truthy (end_date a) then Some 1
      else if \<not> truthy (end_date b) then Some (- 1)
      else (case (toTime (end_date b), toTime (end_date a)) of
              (Some tb, Some ta) \<Rightarrow> Some (tb - ta)
            | _ \<Rightarrow> None))"

text \<open>
  \<^verbatim>\<open>Array.prototype.sort\<close> belongs to the engine that runs the script, and the build takes
  it as \<open>srt\<close>. What the language promises of it is written down next. A comparator is a
  consistent comparison function for a set of values when, on these values, it never
  returns NaN, every value equals itself, equality is symmetric, and equality, less and
  greater are transitive. Every sort returns a permutation of its input; for a consistent
  comparator no value stands before one that is less, and values that compare equal keep
  their order. For a comparator that is not consistent the order is left to the engine.
\<close>

definition cf_lt :: "('a \<Rightarrow> 'a \<Rightarrow> int option) \<Rightarrow> 'a \<Rightarrow> 'a \<Rightarrow> bool" where
  "cf_lt cmp a b = (case cmp a b of Some v \<Rightarrow> v < 0 | None \<Rightarrow> False)"

definition cf_eq :: "('a \<Rightarrow> 'a \<Rightarrow> int option) \<Rightarrow> 'a \<Rightarrow> 'a \<Rightarrow> bool" where
  "cf_eq cmp a b = (cmp a b = Some 0)"

definition cf_gt :: "('a \<Rightarrow> 'a \<Rightarrow> int option) \<Rightarrow> 'a \<Rightarrow> 'a \<Rightarrow> bool" where
  "cf_gt cmp a b = (case cmp a b of Some v \<Rightarrow> 0 < v | None \<Rightarrow> False)"

definition consistent :: "('a \<Rightarrow> 'a \<Rightarrow> int option) \<Rightarrow> 'a set \<Rightarrow> bool" where
  "consistent cmp S =
     ((\<forall>a \<in> S. \<forall>b \<in> S. cmp a b \<noteq> None)
    \<and> (\<forall>a \<in> S. cf_eq cmp a a)
    \<and> (\<forall>a \<in> S. \<forall>b \<in> S. cf_eq cmp a b \<longrightarrow> cf_eq cmp b a)
    \<and> (\<forall>a \<in> S. \<forall>b \<in> S. \<forall>c \<in> S. cf_eq cmp a b \<and> cf_eq cmp b c \<longrightarrow> cf_eq cmp a c)
    \<and> (\<forall>a \<in> S. \<forall>b \<in> S. \<forall>c \<in> S. cf_lt cmp a b \<and> cf_lt cmp b c \<longrightarrow> cf_lt cmp a c)
    \<and> (\<forall>a \<in> S. \<forall>b \<in> S. \<forall>c \<in> S. cf_gt cmp a b \<and> cf_gt cmp b c \<longrightarrow> cf_gt cmp a c))"

definition conforms :: "(('a \<Rightarrow> 'a \<Rightarrow> int option) \<Rightarrow> 'a list \<Rightarrow> 'a list) \<Rightarrow> bool" where
  "conforms srt =
     (\<forall>cmp xs.
        mset (srt cmp xs) = mset xs
      \<and> (consistent cmp (set xs) \<longrightarrow>
            sorted_wrt (\<lambda>a b. \<not> cf_lt cmp b a) (srt cmp xs)
          \<and> (\<forall>p \<in> set xs. filter (cf_eq cmp p) (srt cmp xs) = filter (cf_eq cmp p) xs)))"

definition summary :: "project \<Rightarrow> log" where
  "summary p = Summary (title p) (length (images p)) (length (videos p))"

definition outputPath :: string where
  "outputPath = ''public/projects.json''"

text \<open>The \<^verbatim>\<open>try\<close> block of \<^verbatim>\<open>buildProjectsJson\<close>.\<close>

definition build_body ::
  "((project \<Rightarrow> project \<Rightarrow> int option) \<Rightarrow> project list \<Rightarrow> project list) \<Rightarrow>
   (jsval \<Rightarrow> int option) \<Rightarrow> fs_world \<Rightarrow> log list \<Rightarrow> (exn \<times> log list) + (fs_world \<times> log list)" where
  "build_body srt toTime w c =
     (case projects_root w of
        RootEntries projectFolders \<Rightarrow>
          (case process_folders (public_exists w) projectFolders
                  \<lparr>console = c, projects = [], projectId = 1\<rparr> of
             Inl err \<Rightarrow> Inl err
           | Inr st \<Rightarrow>
               (let sorted = srt (compareEndDate toTime) (projects st)
                in if writable w
                   then Inr (w\<lparr>manifest := Some sorted\<rparr>,
                             console st @ [Built (length sorted), OutputPath outputPath]
                               @ map summary sorted)
                   else Inl (WriteFailed outputPath, console st)))
      | _ \<Rightarrow> Inl (ReaddirFailed projectsDir, c))"

text \<open>
  \<^verbatim>\<open>buildProjectsJson\<close>: the guard on the root, then the \<^verbatim>\<open>try\<close> block with its
  \<^verbatim>\<open>catch\<close>. The result is the world and the console after the call, or the exception
  that leaves the function.
\<close>

definition buildProjectsJson ::
  "((project \<Rightarrow> project \<Rightarrow> int option) \<Rightarrow> project list \<Rightarrow> project list) \<Rightarrow>
   (jsval \<Rightarrow> int option) \<Rightarrow> fs_world \<Rightarrow> exn + (fs_world \<times> log list)" where
  "buildProjectsJson srt toTime w =
     (case projects_root w of
        RootAbsent \<Rightarrow> Inr (w, [Scanning, RootNotFound projectsDir])
      | _ \<Rightarrow>
          (case build_body srt toTime w [Scanning] of
             Inl (e, c) \<Rightarrow> Inr (w, c @ [BuildError])
           | Inr r \<Rightarrow> Inr r))"

text \<open>
  The script calls \<^verbatim>\<open>buildProjectsJson()\<close> and ends: the process exits with 0, or with 1
  when an exception leaves the call.
\<close>

definition build_exit_code ::
  "((project \<Rightarrow> project \<Rightarrow> int option) \<Rightarrow> project list \<Rightarrow> project list) \<Rightarrow>
   (jsval \<Rightarrow> int option) \<Rightarrow> fs_world \<Rightarrow> nat" where
  "build_exit_code srt toTime w =
     (case buildProjectsJson srt toTime w of Inl e \<Rightarrow> 1 | Inr r \<Rightarrow> 0)"

definition build_world ::
  "((project \<Rightarrow> project \<Rightarrow> int option) \<Rightarrow> project list \<Rightarrow> project list) \<Rightarrow>
   (jsval \<Rightarrow> int option) \<Rightarrow> fs_world \<Rightarrow> fs_world" where
  "build_world srt toTime w =
     (case buildProjectsJson srt toTime w of Inl e \<Rightarrow> w | Inr (w', c) \<Rightarrow> w')"

definition build_console ::
  "((project \<Rightarrow> project \<Rightarrow> int option) \<Rightarrow> project list \<Rightarrow> project list) \<Rightarrow>
   (jsval \<Rightarrow> int option) \<Rightarrow> fs_world \<Rightarrow> log list" where
  "build_console srt toTime w =
     (case buildProjectsJson srt toTime w of Inl e \<Rightarrow> [] | Inr (w', c) \<Rightarrow> c)"

section \<open>The database pipeline: the store\<close>

text \<open>
  A stored value is NULL, an integer, a (finite) real, a text or a blob. The same type holds
  the values of the row objects that \<^verbatim>\<open>better-sqlite3\<close> returns: \<^verbatim>\<open>null\<close>, a number, a
  string or a Buffer. A stored integer reaches JavaScript as a number, that is as the
  double nearest to it (ties to even): the integer itself when its magnitude is at most
  \<open>2\<^sup>5\<^sup>3\<close>. The integers of a store have 64 bits and its reals are doubles; the
  type admits every integer and every rational.
\<close>

datatype sqlval = SNull | SInt int | SReal rat | SText string | SBlob string

text \<open>The number of binary digits of a positive integer.\<close>

function bit_length :: "int \<Rightarrow> nat" where
  "bit_length n = (if n \<le> 0 then 0 else Suc (bit_length (n div 2)))"
  by pat_completeness auto

termination
  by (relation "measure nat") auto

definition js_number :: "int \<Rightarrow> int" where
  "js_number i =
     (if \<bar>i\<bar> \<le> 9007199254740992 then i
      else
        (let a = \<bar>i\<bar>;
             k = bit_length a - 53;
             q = a div 2 ^ k;
             r = a mod 2 ^ k;
             q' = (if 2 ^ k < 2 * r \<or> (2 * r = 2 ^ k \<and> odd q) then q + 1 else q)
         in sgn i * (q' * 2 ^ k)))"

definition to_js :: "sqlval \<Rightarrow> sqlval" where
  "to_js v = (case v of SInt i \<Rightarrow> SInt (js_number i) | _ \<Rightarrow> v)"

text \<open>
  A row object: the column names with their values, in column order.
\<close>

type_synonym row = "(string \<times> sqlval) list"

text \<open>
  The projects table has the nine columns that every \<^verbatim>\<open>CREATE TABLE\<close> statement of the
  repository gives it, \<^verbatim>\<open>id INTEGER PRIMARY KEY AUTOINCREMENT\<close> first and the two
  timestamps with \<^verbatim>\<open>DEFAULT CURRENT_TIMESTAMP\<close> last, with the declared types of these
  statements. What the legacy schema and the new one differ in, and what the code inspects,
  is which columns are NOT NULL. A table is kept with the name it was created under (the
  statements of SQLite find it under any spelling that differs from \<^verbatim>\<open>projects\<close> in case
  only), its NOT NULL columns, its rows in rowid order and the AUTOINCREMENT counter of
  \<^verbatim>\<open>sqlite_sequence\<close>. The technologies table is taken with the columns that its
  \<^verbatim>\<open>CREATE TABLE\<close> statement declares.
\<close>

record stored_row =
  s_id :: int
  s_title :: sqlval
  s_description :: sqlval
  s_image :: sqlval
  s_tech :: sqlval
  s_start_date :: sqlval
  s_end_date :: sqlval
  s_created_at :: sqlval
  s_updated_at :: sqlval

record column =
  col_name :: string
  col_notnull :: bool

record table =
  table_name :: string
  not_null :: "string list"
  rows :: "stored_row list"
  seq :: int

record tech_row =
  tech_id :: int
  tech_name :: string
  icon_path :: string
  icon_type :: string
  tech_created_at :: string

record tech_table =
  tech_rows :: "tech_row list"
  tech_seq :: int

record database =
  projects_table :: "table option"
  projects_new_table :: "table option"
  technologies_table :: "tech_table option"

record db_tech = tech_entry +
  iconType :: "string option"

datatype outval = Col sqlval | Tech "db_tech list"

type_synonym out_record = "(string \<times> outval) list"

text \<open>
  The world of one run: the database file (\<open>None\<close>: it cannot be opened), the value of
  \<^verbatim>\<open>CURRENT_TIMESTAMP\<close>, whether the \<^verbatim>\<open>public\<close> directory exists, whether the manifest can
  be written, and the manifest (the array handed to \<^verbatim>\<open>JSON.stringify\<close>).
\<close>

record db_world =
  database :: "database option"
  now :: string
  public_dir :: bool
  json_writable :: bool
  json :: "out_record list option"

datatype dblog =
    TableMissing
  | Migrating
  | MigrationCompleted
  | NoMigrationNeeded
  | TechnologiesInserted
  | SampleCreated
  | Exported
  | TotalProjects nat
  | ExportError

datatype db_exn =
    CannotOpen
  | NoSuchTable string
  | TableExists string
  | ConstraintFailed string
  | DatabaseFull
  | NotAFunction string
  | CannotWrite

definition column_names :: "string list" where
  "column_names =
     [''id'', ''title'', ''description'', ''image'', ''tech'', ''start_date'', ''end_date'',
      ''created_at'', ''updated_at'']"

text \<open>\<^verbatim>\<open>PRAGMA table_info\<close>, as far as the code reads it.\<close>

definition table_info :: "table \<Rightarrow> column list" where
  "table_info t = map (\<lambda>c. \<lparr>col_name = c, col_notnull = (c \<in> set (not_null t))\<rparr>) column_names"

text \<open>The table that both \<^verbatim>\<open>CREATE TABLE\<close> statements for projects make: only the title is NOT NULL.\<close>

definition new_table :: "string \<Rightarrow> table" where
  "new_table n = \<lparr>table_name = n, not_null = [''title''], rows = [], seq = 0\<rparr>"

text \<open>
  The object that \<^verbatim>\<open>SELECT *\<close> yields for a stored row.
\<close>

definition row_object :: "stored_row \<Rightarrow> row" where
  "row_object r =
     [(''id'', SInt (js_number (s_id r))), (''title'', to_js (s_title r)),
      (''description'', to_js (s_description r)), (''image'', to_js (s_image r)),
      (''tech'', to_js (s_tech r)), (''start_date'', to_js (s_start_date r)),
      (''end_date'', to_js (s_end_date r)), (''created_at'', to_js (s_created_at r)),
      (''updated_at'', to_js (s_updated_at r))]"

subsection \<open>Bootstrapping\<close>

text \<open>
  The lookup in \<^verbatim>\<open>sqlite_master\<close> compares the stored name with \<^verbatim>\<open>projects\<close> as written.
\<close>

definition tableExists :: "database \<Rightarrow> bool" where
  "tableExists db =
     (case projects_table db of Some t \<Rightarrow> table_name t = ''projects'' | None \<Rightarrow> False)"

definition hasOldSchema :: "column list \<Rightarrow> bool" where
  "hasOldSchema tableInfo =
     list_ex (\<lambda>col. (col_name col = ''description'' \<or> col_name col = ''image''
                       \<or> col_name col = ''tech'') \<and> col_notnull col) tableInfo"

text \<open>
  The rowid that AUTOINCREMENT gives: one more than the largest that the table has held.
  There is none beyond the largest 64-bit integer.
\<close>

definition next_rowid :: "int list \<Rightarrow> int \<Rightarrow> int" where
  "next_rowid ids counter = fold max ids counter + 1"

definition largest_rowid :: int where
  "largest_rowid = 9223372036854775807"

text \<open>
  The statements of the migration, in order. \<^verbatim>\<open>CREATE TABLE projects_new\<close> fails when there
  is such a table. The copy fails on a row with a NULL title, and on two rows with one id;
  it takes the rows as they are and leaves the counter of the new table at the largest id
  copied. Then the old table is dropped and the new one gets the name \<^verbatim>\<open>projects\<close>.
\<close>

definition migration_steps :: "database \<Rightarrow> table \<Rightarrow> (db_exn \<times> database) + database" where
  "migration_steps db old =
     (if projects_new_table db \<noteq> None then Inl (TableExists ''projects_new'', db)
      else
        (let db1 = db\<lparr>projects_new_table := Some (new_table ''projects_new'')\<rparr>
         in if list_ex (\<lambda>r. s_title r = SNull) (rows old)
            then Inl (ConstraintFailed ''projects_new.title'', db1)
            else if \<not> distinct (map s_id (rows old))
            then Inl (ConstraintFailed ''projects_new.id'', db1)
            else Inr (db\<lparr>projects_table :=
                            Some \<lparr>table_name = ''projects'', not_null = [''title''],
                                  rows = rows old,
                                  seq = fold max (map s_id (rows old)) 0\<rparr>,
                          projects_new_table := None\<rparr>)))"

text \<open>The inner \<^verbatim>\<open>try\<close> block with its \<^verbatim>\<open>catch\<close>, which only prints.\<close>

definition migrate :: "database \<Rightarrow> database \<times> dblog list" where
  "migrate db =
     (case projects_table db of
        None \<Rightarrow> (db, [])
      | Some t \<Rightarrow>
          if hasOldSchema (table_info t) then
            (case migration_steps db t of
               Inl (e, db') \<Rightarrow> (db', [Migrating, NoMigrationNeeded])
             | Inr db' \<Rightarrow> (db', [Migrating, MigrationCompleted]))
          else (db, []))"

definition initialTechnologies :: "(string \<times> string \<times> string) list" where
  "initialTechnologies =
     [(''bash'', ''/portfolio/icons/bash.svg'', ''svg''),
      (''c#'', ''/portfolio/icons/c#.svg'', ''svg''),
      (''c++'', ''/portfolio/icons/c++.svg'', ''svg''),
      (''c'', ''/portfolio/icons/c.svg'', ''svg''),
      (''dart'', ''/portfolio/icons/dart.svg'', ''svg''),
      (''go'', ''/portfolio/icons/go.svg'', ''svg''),
      (''haskell'', ''/portfolio/icons/haskell.svg'', ''svg''),
      (''java'', ''/portfolio/icons/java.svg'', ''svg''),
      (''javascript'', ''/portfolio/icons/javascript.svg'', ''svg''),
      (''kotlin'', ''/portfolio/icons/kotlin.svg'', ''svg''),
      (''php'', ''/portfolio/icons/php.png'', ''png''),
      (''python'', ''/portfolio/icons/python.svg'', ''svg''),
      (''ruby'', ''/portfolio/icons/ruby.svg'', ''svg''),
      (''rust'', ''/portfolio/icons/rust.svg'', ''svg''),
      (''typescript'', ''/portfolio/icons/typescript.svg'', ''svg'')]"

definition insertTech ::
  "string \<Rightarrow> tech_table \<Rightarrow> string \<times> string \<times> string \<Rightarrow> db_exn + tech_table" where
  "insertTech stamp t item =
     (case item of (n, p, ty) \<Rightarrow>
        (let i = next_rowid (map tech_id (tech_rows t)) (tech_seq t)
         in if largest_rowid < i then Inl DatabaseFull
            else if n \<in> set (map tech_name (tech_rows t))
            then Inl (ConstraintFailed ''technologies.name'')
            else Inr \<lparr>tech_rows = tech_rows t @
                        [\<lparr>tech_id = i, tech_name = n, icon_path = p, icon_type = ty,
                          tech_created_at = stamp\<rparr>],
                      tech_seq = i\<rparr>))"

text \<open>\<^verbatim>\<open>forEach\<close> over the rows to insert: the first statement that fails ends it.\<close>

fun insertTechs ::
  "string \<Rightarrow> tech_table \<Rightarrow> (string \<times> string \<times> string) list \<Rightarrow> (db_exn \<times> tech_table) + tech_table" where
  "insertTechs stamp t [] = Inr t"
| "insertTechs stamp t (item # items) =
     (case insertTech stamp t item of
        Inl e \<Rightarrow> Inl (e, t)
      | Inr t' \<Rightarrow> insertTechs stamp t' items)"

definition initialProjects :: "(string \<times> string \<times> string \<times> string \<times> string \<times> string) list" where
  "initialProjects =
     [(''E-Commerce Platform'',
       ''A full-stack e-commerce application built with React, Node.js, and MongoDB.'',
       ''https://images.unsplash.com/photo-1556742049-0cfed4f6a45d?w=400&h=200&fit=crop'',
       ''React,Node.js,MongoDB,Express'', ''2024-01-15'', ''2024-06-30''),
      (''Task Management App'',
       ''A collaborative task management tool with real-time updates and team features.'',
       ''https://images.unsplash.com/photo-1454165804606-c3d57bc86b40?w=400&h=200&fit=crop'',
       ''React,Firebase,Tailwind CSS'', ''2024-03-01'', ''2024-08-15''),
      (''Portfolio Website'',
       ''A modern, responsive portfolio website showcasing my work and skills.'',
       ''https://images.unsplash.com/photo-1467232004584-a241de8bcf5d?w=400&h=200&fit=crop'',
       ''React,Vite,Pico CSS'', ''2024-07-01'', ''2024-08-24'')]"

text \<open>
  The six values of a sample are texts, so no NOT NULL column of the table refuses them;
  the id and both timestamps take their defaults.
\<close>

definition insertProject ::
  "string \<Rightarrow> table \<Rightarrow> string \<times> string \<times> string \<times> string \<times> string \<times> string \<Rightarrow> db_exn + table" where
  "insertProject stamp t item =
     (case item of (ti, de, im, te, sd, ed) \<Rightarrow>
        (let i = next_rowid (map s_id (rows t)) (seq t)
         in if largest_rowid < i then Inl DatabaseFull
            else Inr (t\<lparr>rows := rows t @
                          [\<lparr>s_id = i, s_title = SText ti, s_description = SText de,
                            s_image = SText im, s_tech = SText te, s_start_date = SText sd,
                            s_end_date = SText ed, s_created_at = SText stamp,
                            s_updated_at = SText stamp\<rparr>],
                        seq := i\<rparr>)))"

fun insertProjects ::
  "string \<Rightarrow> table \<Rightarrow> (string \<times> string \<times> string \<times> string \<times> string \<times> string) list \<Rightarrow>
   (db_exn \<times> table) + table" where
  "insertProjects stamp t [] = Inr t"
| "insertProjects stamp t (item # items) =
     (case insertProject stamp t item of
        Inl e \<Rightarrow> Inl (e, t)
      | Inr t' \<Rightarrow> insertProjects stamp t' items)"

text \<open>
  The branch taken when the lookup finds no table: both tables are created if they do not
  exist, the migration is tried, the technologies are seeded when their table is empty, and
  the three sample projects are inserted. An exception carries the database and the console
  as they stood.
\<close>

definition bootstrap ::
  "string \<Rightarrow> database \<Rightarrow> (db_exn \<times> database \<times> dblog list) + (database \<times> dblog list)" where
  "bootstrap stamp db =
     (let db1 = (if projects_table db = None
                 then db\<lparr>projects_table := Some (new_table ''projects'')\<rparr> else db);
          db2 = (if technologies_table db1 = None
                 then db1\<lparr>technologies_table := Some \<lparr>tech_rows = [], tech_seq = 0\<rparr>\<rparr>
                 else db1);
          (db3, mlog) = migrate db2;
          seen = [TableMissing] @ mlog
      in case technologies_table db3 of
           None \<Rightarrow> Inl (NoSuchTable ''technologies'', db3, seen)
         | Some tt \<Rightarrow>
             (case (if length (tech_rows tt) = 0
                    then insertTechs stamp tt initialTechnologies else Inr tt) of
                Inl (e, tt') \<Rightarrow> Inl (e, db3\<lparr>technologies_table := Some tt'\<rparr>, seen)
              | Inr tt' \<Rightarrow>
                  (let db4 = db3\<lparr>technologies_table := Some tt'\<rparr>;
                       tlog = (if length (tech_rows tt) = 0 then [TechnologiesInserted] else [])
                   in case projects_table db4 of
                        None \<Rightarrow> Inl (NoSuchTable ''projects'', db4, seen @ tlog)
                      | Some pt \<Rightarrow>
                          (case insertProjects stamp pt initialProjects of
                             Inl (e, pt') \<Rightarrow>
                               Inl (e, db4\<lparr>projects_table := Some pt'\<rparr>, seen @ tlog)
                           | Inr pt' \<Rightarrow>
                               Inr (db4\<lparr>projects_table := Some pt'\<rparr>,
                                    seen @ tlog @ [SampleCreated])))))"

subsection \<open>The main read\<close>

text \<open>
  The order of the \<^verbatim>\<open>ORDER BY\<close> clause. SQLite puts NULL below every number, numbers in
  numeric order below every text, texts in byte order below every blob; \<open>sql_rank\<close> maps a
  value into a linear order that does the same. The first sort term is the end date, or
  \<^verbatim>\<open>created_at\<close> when the end date is NULL; the second is \<^verbatim>\<open>created_at\<close>; both descend.
\<close>

definition sql_rank :: "sqlval \<Rightarrow> nat \<times> rat \<times> string" where
  "sql_rank v =
     (case v of
        SNull \<Rightarrow> (0, 0, [])
      | SInt i \<Rightarrow> (1, of_int i, [])
      | SReal q \<Rightarrow> (1, q, [])
      | SText s \<Rightarrow> (2, 0, s)
      | SBlob b \<Rightarrow> (3, 0, b))"

definition order_term :: "stored_row \<Rightarrow> sqlval" where
  "order_term r = (if s_end_date r \<noteq> SNull then s_end_date r else s_created_at r)"

definition order_key :: "stored_row \<Rightarrow> (nat \<times> rat \<times> string) \<times> (nat \<times> rat \<times> string)" where
  "order_key r = (sql_rank (order_term r), sql_rank (s_created_at r))"

text \<open>
  The result of the query is the rows in descending key order. Rows with equal keys, whose
  order SQL leaves open, are kept in storage order.
\<close>

fun order_insert :: "stored_row \<Rightarrow> stored_row list \<Rightarrow> stored_row list" where
  "order_insert r [] = [r]"
| "order_insert r (s # ss) =
     (if order_key s < order_key r then r # s # ss else s # order_insert r ss)"

definition order_by :: "stored_row list \<Rightarrow> stored_row list" where
  "order_by rs = foldl (\<lambda>acc r. order_insert r acc) [] rs"

definition select_projects :: "database \<Rightarrow> db_exn + row list" where
  "select_projects db =
     (case projects_table db of
        None \<Rightarrow> Inl (NoSuchTable ''projects'')
      | Some t \<Rightarrow> Inr (map row_object (order_by (rows t))))"

definition select_technologies :: "database \<Rightarrow> db_exn + tech_row list" where
  "select_technologies db =
     (case technologies_table db of
        None \<Rightarrow> Inl (NoSuchTable ''technologies'')
      | Some tt \<Rightarrow> Inr (tech_rows tt))"

subsection \<open>Technology resolver and record assembly\<close>

text \<open>\<^verbatim>\<open>new Map(...)\<close> over the lower-cased names: a later row replaces an earlier one.\<close>

definition techMap :: "tech_row list \<Rightarrow> string \<Rightarrow> tech_row option" where
  "techMap technologies = map_of (rev (map (\<lambda>t. (toLowerCase (tech_name t), t)) technologies))"

text \<open>
  \<^verbatim>\<open>project.tech ? project.tech.split(',') : []\<close>. A row without the column gives
  \<^verbatim>\<open>undefined\<close>; a number other than 0 and a Buffer are truthy and have no \<^verbatim>\<open>split\<close>.
\<close>

fun techArray :: "sqlval option \<Rightarrow> db_exn + string list" where
  "techArray None = Inr []"
| "techArray (Some SNull) = Inr []"
| "techArray (Some (SInt n)) = (if n = 0 then Inr [] else Inl (NotAFunction ''split''))"
| "techArray (Some (SReal q)) = (if q = 0 then Inr [] else Inl (NotAFunction ''split''))"
| "techArray (Some (SText s)) = (if s = [] then Inr [] else Inr (split CHR '','' s))"
| "techArray (Some (SBlob b)) = Inl (NotAFunction ''split'')"

definition techWithIcons :: "(string \<Rightarrow> tech_row option) \<Rightarrow> string \<Rightarrow> db_tech" where
  "techWithIcons tmap techName =
     (case tmap (toLowerCase (trim techName)) of
        Some techData \<Rightarrow>
          \<lparr>name = trim techName, icon = Some (icon_path techData),
           iconType = Some (icon_type techData)\<rparr>
      | None \<Rightarrow> \<lparr>name = trim techName, icon = None, iconType = None\<rparr>)"

text \<open>\<^verbatim>\<open>{...project, tech: v}\<close>: the key keeps its place when the row has it, else it is added.\<close>

fun set_key :: "string \<Rightarrow> outval \<Rightarrow> out_record \<Rightarrow> out_record" where
  "set_key k v [] = [(k, v)]"
| "set_key k v ((k', v') # kvs) =
     (if k' = k then (k, v) # kvs else (k', v') # set_key k v kvs)"

definition spread :: "row \<Rightarrow> out_record" where
  "spread r = map (\<lambda>(k, v). (k, Col v)) r"

definition withTechArray :: "(string \<Rightarrow> tech_row option) \<Rightarrow> row \<Rightarrow> db_exn + out_record" where
  "withTechArray tmap r =
     (case techArray (map_of r ''tech'') of
        Inl e \<Rightarrow> Inl e
      | Inr segments \<Rightarrow>
          Inr (set_key ''tech'' (Tech (map (techWithIcons tmap) segments)) (spread r)))"

text \<open>\<^verbatim>\<open>projects.map(...)\<close>: the first exception ends it.\<close>

fun map_rows :: "(string \<Rightarrow> tech_row option) \<Rightarrow> row list \<Rightarrow> db_exn + out_record list" where
  "map_rows tmap [] = Inr []"
| "map_rows tmap (r # rs) =
     (case withTechArray tmap r of
        Inl e \<Rightarrow> Inl e
      | Inr out \<Rightarrow> (case map_rows tmap rs of Inl e \<Rightarrow> Inl e | Inr outs \<Rightarrow> Inr (out # outs)))"

subsection \<open>The export\<close>

text \<open>
  The \<^verbatim>\<open>try\<close> block of \<^verbatim>\<open>exportProjectsToJson\<close>. An exception carries the world and the
  console as they stood: what was changed in the database before it stays changed.
\<close>

definition export_body ::
  "db_world \<Rightarrow> (db_exn \<times> db_world \<times> dblog list) + (db_world \<times> dblog list)" where
  "export_body w =
     (case database w of
        None \<Rightarrow> Inl (CannotOpen, w, [])
      | Some db \<Rightarrow>
          (case (if \<not> tableExists db then bootstrap (now w) db else Inr (db, [])) of
             Inl (e, db', blog) \<Rightarrow> Inl (e, w\<lparr>database := Some db'\<rparr>, blog)
           | Inr (db', blog) \<Rightarrow>
               (let w1 = w\<lparr>database := Some db'\<rparr>
                in case select_projects db' of
                     Inl e \<Rightarrow> Inl (e, w1, blog)
                   | Inr prows \<Rightarrow>
                       (case select_technologies db' of
                          Inl e \<Rightarrow> Inl (e, w1, blog)
                        | Inr technologies \<Rightarrow>
                            (case map_rows (techMap technologies) prows of
                               Inl e \<Rightarrow> Inl (e, w1, blog)
                             | Inr projectsWithTechArray \<Rightarrow>
                                 (let w2 = w1\<lparr>public_dir := True\<rparr>
                                  in if json_writable w
                                     then Inr (w2\<lparr>json := Some projectsWithTechArray\<rparr>,
                                               blog @ [Exported, TotalProjects (length prows)])
                                     else Inl (CannotWrite, w2, blog)))))))"

text \<open>
  \<^verbatim>\<open>exportProjectsToJson\<close> as the script runs it: the world and the console after the run,
  and the exit status, which the \<^verbatim>\<open>catch\<close> block sets to 1.
\<close>

definition exportProjectsToJson :: "db_world \<Rightarrow> db_world \<times> dblog list \<times> nat" where
  "exportProjectsToJson w =
     (case export_body w of
        Inl (e, w', c) \<Rightarrow> (w', c @ [ExportError], 1)
      | Inr (w', c) \<Rightarrow> (w', c, 0))"

definition export_world :: "db_world \<Rightarrow> db_world" where
  "export_world w = fst (exportProjectsToJson w)"

definition export_exit_code :: "db_world \<Rightarrow> nat" where
  "export_exit_code w = snd (snd (exportProjectsToJson w))"

section \<open>A sort of the engine\<close>

text \<open>
  Straight insertion, the method that engines apply to short arrays: each value in turn
  moves left over the values it compares less than. A comparison that yields NaN is not
  less than zero, so the value stays where it is. The sorted part is kept with its last
  value first.
\<close>

fun sort_insert :: "('a \<Rightarrow> 'a \<Rightarrow> int option) \<Rightarrow> 'a \<Rightarrow> 'a list \<Rightarrow> 'a list" where
  "sort_insert cmp x [] = [x]"
| "sort_insert cmp x (y # ys) =
     (if cf_lt cmp x y then y # sort_insert cmp x ys else x # y # ys)"

definition insertion_sort :: "('a \<Rightarrow> 'a \<Rightarrow> int option) \<Rightarrow> 'a list \<Rightarrow> 'a list" where
  "insertion_sort cmp xs = rev (foldl (\<lambda>acc x. sort_insert cmp x acc) [] xs)"

text \<open>
  A sort that tells a consistent comparator from one that is not: it sorts by insertion
  under the first and hands back the values in reverse under the second, as the language
  allows.
\<close>

definition contrary_sort :: "('a \<Rightarrow> 'a \<Rightarrow> int option) \<Rightarrow> 'a list \<Rightarrow> 'a list" where
  "contrary_sort cmp xs = (if consistent cmp (set xs) then insertion_sort cmp xs else rev xs)"

section \<open>Vocabulary of the properties\<close>

text \<open>The candidate directories of a root listing, in listing order, with their names.\<close>

fun candidates :: "(string \<times> entry) list \<Rightarrow> (string \<times> project_dir) list" where
  "candidates [] = []"
| "candidates ((folder, Directory d) # es) = (folder, d) # candidates es"
| "candidates ((folder, NoStat) # es) = candidates es"
| "candidates ((folder, NotDirectory) # es) = candidates es"

text \<open>\<^verbatim>\<open>statSync\<close> succeeds on every entry of the root.\<close>

definition all_stat :: "(string \<times> entry) list \<Rightarrow> bool" where
  "all_stat es = list_all (\<lambda>(folder, e). e \<noteq> NoStat) es"

text \<open>A directory yields a record when its sidecar loads to a truthy document.\<close>

definition emits :: "project_dir \<Rightarrow> bool" where
  "emits d = (case sidecar d of Loaded v \<Rightarrow> truthy v | _ \<Rightarrow> False)"

text \<open>The document of a directory whose sidecar loads.\<close>

definition document :: "project_dir \<Rightarrow> jsval" where
  "document d = (case sidecar d of Loaded v \<Rightarrow> v | _ \<Rightarrow> JNull)"

text \<open>The record of a directory: its document and its scanned assets under the id given.\<close>

definition record_of :: "(string \<Rightarrow> bool) \<Rightarrow> nat \<Rightarrow> string \<Rightarrow> project_dir \<Rightarrow> project" where
  "record_of pub n folder d =
     build_project pub n (document d)
       (snd (scanProjectImages folder (listing d)))
       (snd (scanProjectVideos folder (file_exists d) (listing d)))"

text \<open>A record is dated when its end date is not empty; its time is that of the date.\<close>

definition dated :: "project \<Rightarrow> bool" where
  "dated p = truthy (end_date p)"

definition end_time :: "(jsval \<Rightarrow> int option) \<Rightarrow> project \<Rightarrow> int" where
  "end_time toTime p = (case toTime (end_date p) of Some t \<Rightarrow> t | None \<Rightarrow> 0)"

definition valid_dates :: "(jsval \<Rightarrow> int option) \<Rightarrow> project list \<Rightarrow> bool" where
  "valid_dates toTime ps = list_all (\<lambda>p. dated p \<longrightarrow> toTime (end_date p) \<noteq> None) ps"

text \<open>The rank of a record in the order of the manifest: dated first, later dates first.\<close>

definition end_key :: "(jsval \<Rightarrow> int option) \<Rightarrow> project \<Rightarrow> nat \<times> int" where
  "end_key toTime p = (if dated p then (0, - end_time toTime p) else (1, 0))"

definition column_of :: "out_record \<Rightarrow> string \<Rightarrow> outval option" where
  "column_of out c = map_of out c"

text \<open>
  The technology row that a name resolves to: the last row of the table whose name is the
  trimmed name up to case.
\<close>

definition technology_of :: "tech_row list \<Rightarrow> string \<Rightarrow> tech_row option" where
  "technology_of technologies segment =
     find (\<lambda>t. toLowerCase (tech_name t) = toLowerCase (trim segment)) (rev technologies)"

text \<open>
  The record that stands in the manifest for a stored row: its nine columns as the driver
  hands them over, the technology array in the place of the tech column. The array has an
  entry for every segment of a tech text that is not empty.
\<close>

definition entry_of :: "tech_row list \<Rightarrow> string \<Rightarrow> db_tech" where
  "entry_of technologies segment =
     \<lparr>name = trim segment,
      icon = map_option icon_path (technology_of technologies segment),
      iconType = map_option icon_type (technology_of technologies segment)\<rparr>"

definition segments_of :: "sqlval \<Rightarrow> string list" where
  "segments_of v = (case v of SText s \<Rightarrow> if s = [] then [] else split CHR '','' s | _ \<Rightarrow> [])"

definition written_record :: "tech_row list \<Rightarrow> stored_row \<Rightarrow> out_record" where
  "written_record technologies r =
     [(''id'', Col (SInt (js_number (s_id r)))), (''title'', Col (to_js (s_title r))),
      (''description'', Col (to_js (s_description r))), (''image'', Col (to_js (s_image r))),
      (''tech'', Tech (map (entry_of technologies) (segments_of (s_tech r)))),
      (''start_date'', Col (to_js (s_start_date r))),
      (''end_date'', Col (to_js (s_end_date r))),
      (''created_at'', Col (to_js (s_created_at r))),
      (''updated_at'', Col (to_js (s_updated_at r)))]"

section \<open>Example inputs\<close>

text \<open>Worlds and stores on which the properties below are exercised.\<close>

definition no_dates :: "jsval \<Rightarrow> int option" where
  "no_dates v = None"

text \<open>A date parser that knows the time values of the dates used in the examples.\<close>

definition some_dates :: "jsval \<Rightarrow> int option" where
  "some_dates v =
     (case v of
        JDate t \<Rightarrow> Some t
      | JStr s \<Rightarrow>
          if s = ''2024-06-30'' then Some 1719705600000
          else if s = ''2024-08-15'' then Some 1723680000000
          else None
      | _ \<Rightarrow> None)"

definition old_manifest :: "project list" where
  "old_manifest =
     [\<lparr>project_id = 1, title = JStr ''Earlier build'', subtitle = JNull,
       description = JStr [], start_date = JStr [], end_date = JStr [], tech = [],
       images = [], videos = [], image_layout = JStr ''grid'', github_url = JNull,
       live_url = JNull\<rparr>]"

definition no_root_world :: fs_world where
  "no_root_world =
     \<lparr>projects_root = RootAbsent, public_exists = (\<lambda>p. False),
      manifest = Some old_manifest, writable = True\<rparr>"

definition dangling_world :: fs_world where
  "dangling_world =
     \<lparr>projects_root = RootEntries [(''gone'', NoStat)], public_exists = (\<lambda>p. False),
      manifest = Some old_manifest, writable = True\<rparr>"

text \<open>
  In \<open>alpha\<close> the name \<^verbatim>\<open>demo-thumb.jpg\<close> is listed and does not exist (a link whose target
  is gone).
\<close>

definition alpha_dir :: project_dir where
  "alpha_dir =
     \<lparr>sidecar = Loaded (JObj [(''title'', JStr ''Alpha''), (''end_date'', JStr ''2024-06-30''),
                              (''tech'', JStr ''React, Node.js,  MongoDB'')]),
      listing = Some [''project.yml'', ''demo.mp4'', ''demo-thumb.jpg'', ''demo-thumb.png'',
                      ''shot.PNG''],
      file_exists = (\<lambda>f. f = ''project.yml'' \<or> f = ''demo.mp4'' \<or> f = ''demo-thumb.png''
                           \<or> f = ''shot.PNG'')\<rparr>"

definition beta_dir :: project_dir where
  "beta_dir =
     \<lparr>sidecar = NoSidecar, listing = Some [''notes.txt''],
      file_exists = (\<lambda>f. f = ''notes.txt'')\<rparr>"

definition gamma_dir :: project_dir where
  "gamma_dir =
     \<lparr>sidecar = Loaded (JObj [(''title'', JStr ''Gamma'')]), listing = Some [''project.yml''],
      file_exists = (\<lambda>f. f = ''project.yml'')\<rparr>"

definition delta_dir :: project_dir where
  "delta_dir =
     \<lparr>sidecar = Loaded (JObj [(''title'', JStr ''Delta''), (''end_date'', JStr ''2024-08-15'')]),
      listing = Some [''project.yml''], file_exists = (\<lambda>f. f = ''project.yml'')\<rparr>"


text \<open>A directory whose end date is no date.\<close>

definition soon_dir :: project_dir where
  "soon_dir =
     \<lparr>sidecar = Loaded (JObj [(''title'', JStr ''Soon''), (''end_date'', JStr ''soon'')]),
      listing = Some [''project.yml''], file_exists = (\<lambda>f. f = ''project.yml'')\<rparr>"

definition four_folders :: "(string \<times> entry) list" where
  "four_folders =
     [(''alpha'', Directory alpha_dir), (''beta'', Directory beta_dir),
      (''README.md'', NotDirectory), (''gamma'', Directory gamma_dir),
      (''delta'', Directory delta_dir)]"

definition four_folders_world :: fs_world where
  "four_folders_world =
     \<lparr>projects_root = RootEntries four_folders, public_exists = (\<lambda>p. False),
      manifest = None, writable = True\<rparr>"



definition invalid_date_world :: fs_world where
  "invalid_date_world =
     \<lparr>projects_root =
        RootEntries [(''alpha'', Directory alpha_dir), (''soon'', Directory soon_dir),
                     (''delta'', Directory delta_dir)],
      public_exists = (\<lambda>p. False), manifest = None, writable = True\<rparr>"

definition open_ended_world :: fs_world where
  "open_ended_world =
     \<lparr>projects_root =
        RootEntries [(''alpha'', Directory alpha_dir), (''soon'', Directory soon_dir),
                     (''gamma'', Directory gamma_dir)],
      public_exists = (\<lambda>p. False), manifest = None, writable = True\<rparr>"

definition legacy_row :: stored_row where
  "legacy_row =
     \<lparr>s_id = 7, s_title = SText ''Ray tracer'', s_description = SText ''A toy'',
      s_image = SText ''rt.png'', s_tech = SText ''Rust, ,C++'',
      s_start_date = SText ''2023-01-01'', s_end_date = SText ''2024-06-30'',
      s_created_at = SText ''2024-01-01 00:00:00'',
      s_updated_at = SText ''2024-01-02 00:00:00''\<rparr>"

definition undated_row :: stored_row where
  "undated_row =
     \<lparr>s_id = 9, s_title = SText ''Ongoing'', s_description = SNull, s_image = SNull,
      s_tech = SNull, s_start_date = SText ''2025-01-01'', s_end_date = SNull,
      s_created_at = SText ''2025-01-01 00:00:00'',
      s_updated_at = SText ''2025-01-01 00:00:00''\<rparr>"

definition large_row :: stored_row where
  "large_row =
     \<lparr>s_id = 9007199254740993, s_title = SText ''Archive'', s_description = SNull,
      s_image = SNull, s_tech = SNull, s_start_date = SNull,
      s_end_date = SText ''2020-01-01'', s_created_at = SText ''2020-01-01 00:00:00'',
      s_updated_at = SText ''2020-01-01 00:00:00''\<rparr>"

definition two_technologies :: tech_table where
  "two_technologies =
     \<lparr>tech_rows =
        [\<lparr>tech_id = 1, tech_name = ''rust'', icon_path = ''/portfolio/icons/rust.svg'',
          icon_type = ''svg'', tech_created_at = ''2024-01-01 00:00:00''\<rparr>,
         \<lparr>tech_id = 2, tech_name = ''C++'', icon_path = ''/portfolio/icons/c++.svg'',
          icon_type = ''svg'', tech_created_at = ''2024-01-01 00:00:00''\<rparr>],
      tech_seq = 2\<rparr>"

text \<open>
  A table of the legacy schema, which once held rows up to id 12, under the name the code
  looks up and under another spelling of it.
\<close>

definition legacy_table :: "string \<Rightarrow> table" where
  "legacy_table n =
     \<lparr>table_name = n, not_null = [''title'', ''description'', ''image'', ''tech''],
      rows = [legacy_row], seq = 12\<rparr>"

definition legacy_db :: database where
  "legacy_db =
     \<lparr>projects_table = Some (legacy_table ''projects''), projects_new_table = None,
      technologies_table = Some two_technologies\<rparr>"

definition legacy_world :: db_world where
  "legacy_world =
     \<lparr>database = Some legacy_db, now = ''2025-06-01 12:00:00'', public_dir = True,
      json_writable = True, json = None\<rparr>"

definition capitalised_world :: db_world where
  "capitalised_world =
     \<lparr>database = Some (legacy_db\<lparr>projects_table := Some (legacy_table ''Projects'')\<rparr>),
      now = ''2025-06-01 12:00:00'', public_dir = True, json_writable = True, json = None\<rparr>"

definition no_technologies_world :: db_world where
  "no_technologies_world =
     \<lparr>database = Some \<lparr>projects_table =
                          Some ((new_table ''projects'')\<lparr>rows := [legacy_row], seq := 7\<rparr>),
                        projects_new_table = None, technologies_table = None\<rparr>,
      now = ''2025-06-01 12:00:00'', public_dir = True, json_writable = True, json = None\<rparr>"

definition two_rows_world :: db_world where
  "two_rows_world =
     \<lparr>database = Some \<lparr>projects_table =
                          Some ((new_table ''projects'')
                                  \<lparr>rows := [legacy_row, undated_row], seq := 9\<rparr>),
                        projects_new_table = None,
                        technologies_table = Some two_technologies\<rparr>,
      now = ''2025-06-01 12:00:00'', public_dir = True, json_writable = True, json = None\<rparr>"

definition large_id_world :: db_world where
  "large_id_world =
     \<lparr>database = Some \<lparr>projects_table =
                          Some ((new_table ''projects'')
                                  \<lparr>rows := [large_row], seq := 9007199254740993\<rparr>),
                        projects_new_table = None,
                        technologies_table = Some two_technologies\<rparr>,
      now = ''2025-06-01 12:00:00'', public_dir = True, json_writable = True, json = None\<rparr>"

section \<open>Properties of the asset scanner\<close>

lemma scan_images_thumbnail:
  "a \<in> set (scan_images folder files) \<Longrightarrow> thumbnail a = Some (path a)"
  by (induction files) (auto split: if_splits)

lemma shot_ext: "toLowerCase (extname ''shot.PNG'') = ''.png''"
  by code_simp

lemma notes_ext: "toLowerCase (extname ''notes.txt'') = ''.txt''"
  by code_simp

text \<open>
  C9. Every image descriptor that \<^verbatim>\<open>scanProjectImages\<close> returns has a thumbnail, and the
  thumbnail is the descriptor's own path; the thumbnail of an image is never null.
\<close>

theorem image_thumbnail_is_own_path:
  "\<forall>a \<in> set (snd (scanProjectImages folder l)).
     thumbnail a = Some (path a) \<and> thumbnail a \<noteq> None"
  by (cases l) (auto dest: scan_images_thumbnail)

theorem image_thumbnail_is_own_path_witness:
  "snd (scanProjectImages ''app'' (Some [''shot.PNG'', ''notes.txt'']))
     = [\<lparr>path = ''/portfolio/projects/app/shot.PNG'',
         thumbnail = Some ''/portfolio/projects/app/shot.PNG''\<rparr>]
   \<and> thumbnail (hd (snd (scanProjectImages ''app'' (Some [''shot.PNG'', ''notes.txt'']))))
       = Some (path (hd (snd (scanProjectImages ''app'' (Some [''shot.PNG'', ''notes.txt''])))))"
proof -
  have listed: "snd (scanProjectImages ''app'' (Some [''shot.PNG'', ''notes.txt'']))
     = [\<lparr>path = ''/portfolio/projects/app/shot.PNG'',
         thumbnail = Some ''/portfolio/projects/app/shot.PNG''\<rparr>]"
    by (simp add: shot_ext notes_ext imageExtensions_def public_path_def)
  then have "hd (snd (scanProjectImages ''app'' (Some [''shot.PNG'', ''notes.txt''])))
      \<in> set (snd (scanProjectImages ''app'' (Some [''shot.PNG'', ''notes.txt''])))"
    by simp
  with image_thumbnail_is_own_path [of "''app''" "Some [''shot.PNG'', ''notes.txt'']"]
  have "thumbnail (hd (snd (scanProjectImages ''app'' (Some [''shot.PNG'', ''notes.txt'']))))
       = Some (path (hd (snd (scanProjectImages ''app'' (Some [''shot.PNG'', ''notes.txt''])))))"
    by blast
  with listed show ?thesis by blast
qed

lemma find_thumbnail_find:
  "find_thumbnail folder ex b exts =
     map_option (\<lambda>e. public_path folder (b @ ''-thumb'' @ e))
       (find (\<lambda>e. ex (b @ ''-thumb'' @ e)) exts)"
  by (induction exts) (simp_all add: Let_def)

lemma scan_videos_map:
  "scan_videos folder ex files =
     map (\<lambda>f. \<lparr>path = public_path folder f,
                thumbnail = find_thumbnail folder ex (parse_name f) thumbnailExtensions\<rparr>)
       (filter (\<lambda>f. toLowerCase (extname f) \<in> set videoExtensions) files)"
  by (induction files) simp_all

lemma demo_ext: "toLowerCase (extname ''demo.mp4'') = ''.mp4''"
  by code_simp

lemma demo_name: "parse_name ''demo.mp4'' = ''demo''"
  by code_simp

lemma thumb_jpg_ext: "toLowerCase (extname ''demo-thumb.jpg'') = ''.jpg''"
  by code_simp

lemma thumb_png_ext: "toLowerCase (extname ''demo-thumb.png'') = ''.png''"
  by code_simp

lemma thumb_webp_ext: "toLowerCase (extname ''demo-thumb.webp'') = ''.webp''"
  by code_simp

lemma yml_ext: "toLowerCase (extname ''project.yml'') = ''.yml''"
  by code_simp

text \<open>
  C7. The videos that \<^verbatim>\<open>scanProjectVideos\<close> returns are the listed files with a video
  extension, in listing order; the thumbnail of each is the public path of
  \<^verbatim>\<open><base>-thumb<ext>\<close> for the first extension of the list \<^verbatim>\<open>.jpg .jpeg .png .webp\<close> for
  which \<^verbatim>\<open>existsSync\<close> finds that file in the directory, and null when it finds none. So a
  video \<^verbatim>\<open>demo.mp4\<close> with a sibling \<^verbatim>\<open>demo-thumb.png\<close>, the first match, gets that
  sibling's path.
\<close>

theorem video_thumbnail_first_match:
  "snd (scanProjectVideos folder existsSync (Some files)) =
     map (\<lambda>f. \<lparr>path = public_path folder f,
                thumbnail =
                  map_option (\<lambda>e. public_path folder (parse_name f @ ''-thumb'' @ e))
                    (find (\<lambda>e. existsSync (parse_name f @ ''-thumb'' @ e))
                       [''.jpg'', ''.jpeg'', ''.png'', ''.webp''])\<rparr>)
       (filter (\<lambda>f. toLowerCase (extname f) \<in> set videoExtensions) files)
   \<and> (''demo.mp4'' \<in> set files \<and> existsSync ''demo-thumb.png''
        \<and> \<not> existsSync ''demo-thumb.jpg'' \<and> \<not> existsSync ''demo-thumb.jpeg''
      \<longrightarrow> \<lparr>path = public_path folder ''demo.mp4'',
            thumbnail = Some (public_path folder ''demo-thumb.png'')\<rparr>
            \<in> set (snd (scanProjectVideos folder existsSync (Some files))))"
proof -
  have general: "snd (scanProjectVideos folder existsSync (Some files)) =
     map (\<lambda>f. \<lparr>path = public_path folder f,
                thumbnail =
                  map_option (\<lambda>e. public_path folder (parse_name f @ ''-thumb'' @ e))
                    (find (\<lambda>e. existsSync (parse_name f @ ''-thumb'' @ e))
                       [''.jpg'', ''.jpeg'', ''.png'', ''.webp''])\<rparr>)
       (filter (\<lambda>f. toLowerCase (extname f) \<in> set videoExtensions) files)"
    by (simp only: scanProjectVideos.simps snd_conv scan_videos_map find_thumbnail_find
          thumbnailExtensions_def)
  have demo: "\<lparr>path = public_path folder ''demo.mp4'',
            thumbnail = Some (public_path folder ''demo-thumb.png'')\<rparr>
            \<in> set (snd (scanProjectVideos folder existsSync (Some files)))"
    if "''demo.mp4'' \<in> set files" "existsSync ''demo-thumb.png''"
       "\<not> existsSync ''demo-thumb.jpg''" "\<not> existsSync ''demo-thumb.jpeg''"
  proof -
    have "''demo.mp4'' \<in> set (filter (\<lambda>f. toLowerCase (extname f) \<in> set videoExtensions) files)"
      using that(1) by (simp add: demo_ext videoExtensions_def)
    moreover have "find (\<lambda>e. existsSync (parse_name ''demo.mp4'' @ ''-thumb'' @ e))
                       [''.jpg'', ''.jpeg'', ''.png'', ''.webp''] = Some ''.png''"
      using that(2-4) by (simp add: demo_name)
    ultimately show ?thesis
      unfolding general set_map
      by (intro rev_image_eqI[where x = "''demo.mp4''"]) (simp_all add: demo_name)
  qed
  from general demo show ?thesis by blast
qed

theorem video_thumbnail_first_match_witness:
  "''demo.mp4'' \<in> set [''demo.mp4'', ''demo-thumb.jpg'', ''demo-thumb.png'', ''demo-thumb.webp'']
   \<and> (\<lambda>f. f = ''demo.mp4'' \<or> f = ''demo-thumb.png'' \<or> f = ''demo-thumb.webp'') ''demo-thumb.png''
   \<and> \<not> (\<lambda>f. f = ''demo.mp4'' \<or> f = ''demo-thumb.png'' \<or> f = ''demo-thumb.webp'') ''demo-thumb.jpg''
   \<and> \<not> (\<lambda>f. f = ''demo.mp4'' \<or> f = ''demo-thumb.png'' \<or> f = ''demo-thumb.webp'') ''demo-thumb.jpeg''
   \<and> snd (scanProjectVideos ''app''
            (\<lambda>f. f = ''demo.mp4'' \<or> f = ''demo-thumb.png'' \<or> f = ''demo-thumb.webp'')
            (Some [''demo.mp4'', ''demo-thumb.jpg'', ''demo-thumb.png'', ''demo-thumb.webp'']))
       = [\<lparr>path = ''/portfolio/projects/app/demo.mp4'',
           thumbnail = Some ''/portfolio/projects/app/demo-thumb.png''\<rparr>]"
  using video_thumbnail_first_match
          [of "''app''" "\<lambda>f. f = ''demo.mp4'' \<or> f = ''demo-thumb.png'' \<or> f = ''demo-thumb.webp''"
              "[''demo.mp4'', ''demo-thumb.jpg'', ''demo-thumb.png'', ''demo-thumb.webp'']"]
  by (simp add: demo_ext thumb_jpg_ext thumb_png_ext thumb_webp_ext demo_name videoExtensions_def
        thumbnailExtensions_def public_path_def Let_def)

section \<open>The sort\<close>

lemma cf_cases:
  "cmp a b \<noteq> None \<Longrightarrow> cf_lt cmp a b \<or> cf_eq cmp a b \<or> cf_gt cmp a b"
  by (auto simp: cf_lt_def cf_eq_def cf_gt_def)

lemma cf_exclusive:
  "\<not> (cf_lt cmp a b \<and> cf_eq cmp a b)" "\<not> (cf_gt cmp a b \<and> cf_eq cmp a b)"
  "\<not> (cf_lt cmp a b \<and> cf_gt cmp a b)"
  by (auto simp: cf_lt_def cf_eq_def cf_gt_def split: option.splits)

lemma consistent_lt_gt:
  assumes c: "consistent cmp S" and m: "a \<in> S" "b \<in> S" and lt: "cf_lt cmp a b"
  shows "cf_gt cmp b a"
proof -
  from c m have some: "cmp b a \<noteq> None" and refl: "cf_eq cmp a a"
    and sym: "cf_eq cmp b a \<longrightarrow> cf_eq cmp a b"
    and trans: "cf_lt cmp a b \<and> cf_lt cmp b a \<longrightarrow> cf_lt cmp a a"
    unfolding consistent_def by blast+
  from cf_cases [of cmp b a] some
  have "cf_lt cmp b a \<or> cf_eq cmp b a \<or> cf_gt cmp b a" by simp
  then show ?thesis
  proof (elim disjE)
    assume "cf_gt cmp b a"
    then show ?thesis .
  next
    assume "cf_lt cmp b a"
    with trans lt have "cf_lt cmp a a" by simp
    with refl cf_exclusive(1) [of cmp a a] show ?thesis by simp
  next
    assume "cf_eq cmp b a"
    with sym lt cf_exclusive(1) [of cmp a b] show ?thesis by simp
  qed
qed

lemma consistent_gt_lt:
  assumes c: "consistent cmp S" and m: "a \<in> S" "b \<in> S" and gt: "cf_gt cmp a b"
  shows "cf_lt cmp b a"
proof -
  from c m have some: "cmp b a \<noteq> None" and refl: "cf_eq cmp a a"
    and sym: "cf_eq cmp b a \<longrightarrow> cf_eq cmp a b"
    and trans: "cf_gt cmp a b \<and> cf_gt cmp b a \<longrightarrow> cf_gt cmp a a"
    unfolding consistent_def by blast+
  from cf_cases [of cmp b a] some
  have "cf_lt cmp b a \<or> cf_eq cmp b a \<or> cf_gt cmp b a" by simp
  then show ?thesis
  proof (elim disjE)
    assume "cf_lt cmp b a"
    then show ?thesis .
  next
    assume "cf_gt cmp b a"
    with trans gt have "cf_gt cmp a a" by simp
    with refl cf_exclusive(2) [of cmp a a] show ?thesis by simp
  next
    assume "cf_eq cmp b a"
    with sym gt cf_exclusive(2) [of cmp a b] show ?thesis by simp
  qed
qed

lemma consistent_not_lt_trans:
  assumes c: "consistent cmp S" and m: "x \<in> S" "y \<in> S" "z \<in> S"
    and xy: "\<not> cf_lt cmp x y" and yz: "\<not> cf_lt cmp y z"
  shows "\<not> cf_lt cmp x z"
proof
  assume xz: "cf_lt cmp x z"
  from c m have some: "cmp x y \<noteq> None" "cmp y z \<noteq> None"
    and eqt: "cf_eq cmp x y \<and> cf_eq cmp y z \<longrightarrow> cf_eq cmp x z"
    and sym: "cf_eq cmp x y \<longrightarrow> cf_eq cmp y x"
    and ltt1: "cf_lt cmp x z \<and> cf_lt cmp z y \<longrightarrow> cf_lt cmp x y"
    and ltt2: "cf_lt cmp y x \<and> cf_lt cmp x z \<longrightarrow> cf_lt cmp y z"
    and gtt: "cf_gt cmp x y \<and> cf_gt cmp y z \<longrightarrow> cf_gt cmp x z"
    unfolding consistent_def by blast+
  from cf_cases [of cmp x y] some(1) xy have xy': "cf_eq cmp x y \<or> cf_gt cmp x y" by simp
  from cf_cases [of cmp y z] some(2) yz have yz': "cf_eq cmp y z \<or> cf_gt cmp y z" by simp
  from xy' yz' show False
  proof (elim disjE)
    assume "cf_eq cmp x y" "cf_eq cmp y z"
    with eqt xz cf_exclusive(1) [of cmp x z] show False by simp
  next
    assume "cf_eq cmp x y" "cf_gt cmp y z"
    from consistent_gt_lt [OF c m(2,3) this(2)] ltt1 xz xy show False by simp
  next
    assume "cf_gt cmp x y" "cf_eq cmp y z"
    from consistent_gt_lt [OF c m(1,2) this(1)] ltt2 xz yz show False by simp
  next
    assume "cf_gt cmp x y" "cf_gt cmp y z"
    with gtt xz cf_exclusive(3) [of cmp x z] show False by simp
  qed
qed

lemma consistent_eq_not_both:
  assumes c: "consistent cmp S" and m: "p \<in> S" "x \<in> S" "y \<in> S"
    and lt: "cf_lt cmp x y"
  shows "\<not> (cf_eq cmp p x \<and> cf_eq cmp p y)"
proof
  assume e: "cf_eq cmp p x \<and> cf_eq cmp p y"
  from c m have sym: "cf_eq cmp p x \<longrightarrow> cf_eq cmp x p"
    and eqt: "cf_eq cmp x p \<and> cf_eq cmp p y \<longrightarrow> cf_eq cmp x y"
    unfolding consistent_def by blast+
  with e have "cf_eq cmp x y" by simp
  with lt cf_exclusive(1) [of cmp x y] show False by simp
qed

lemma mset_sort_insert: "mset (sort_insert cmp x ys) = add_mset x (mset ys)"
  by (induction ys) simp_all

lemma set_sort_insert: "set (sort_insert cmp x ys) = insert x (set ys)"
  by (induction ys) auto

lemma mset_foldl_sort_insert:
  "mset (foldl (\<lambda>acc x. sort_insert cmp x acc) acc xs) = mset acc + mset xs"
  by (induction xs arbitrary: acc) (simp_all add: mset_sort_insert)

lemma mset_insertion_sort: "mset (insertion_sort cmp xs) = mset xs"
  by (simp add: insertion_sort_def mset_foldl_sort_insert)

lemma sorted_sort_insert:
  assumes c: "consistent cmp S" and x: "x \<in> S"
  shows "set ys \<subseteq> S \<Longrightarrow> sorted_wrt (\<lambda>a b. \<not> cf_lt cmp a b) ys \<Longrightarrow>
           sorted_wrt (\<lambda>a b. \<not> cf_lt cmp a b) (sort_insert cmp x ys)"
proof (induction ys)
  case Nil
  then show ?case by simp
next
  case (Cons y ys)
  show ?case
  proof (cases "cf_lt cmp x y")
    case True
    from Cons.prems have y: "y \<in> S" by simp
    from consistent_lt_gt [OF c x y True] cf_exclusive(3) [of cmp y x]
    have "\<not> cf_lt cmp y x" by blast
    with True Cons show ?thesis by (auto simp: set_sort_insert)
  next
    case False
    have "\<not> cf_lt cmp x z" if "z \<in> set ys" for z
    proof -
      from Cons.prems that have "y \<in> S" "z \<in> S" "\<not> cf_lt cmp y z" by auto
      with consistent_not_lt_trans [OF c x _ _ False] show ?thesis by blast
    qed
    with False Cons.prems show ?thesis by simp
  qed
qed

lemma filter_sort_insert:
  assumes c: "consistent cmp S" and x: "x \<in> S" and p: "p \<in> S"
  shows "set ys \<subseteq> S \<Longrightarrow>
     filter (cf_eq cmp p) (sort_insert cmp x ys) = filter (cf_eq cmp p) (x # ys)"
proof (induction ys)
  case Nil
  then show ?case by simp
next
  case (Cons y ys)
  show ?case
  proof (cases "cf_lt cmp x y")
    case True
    from Cons.prems have y: "y \<in> S" by simp
    from consistent_eq_not_both [OF c p x y True] Cons True show ?thesis by auto
  next
    case False
    then show ?thesis by simp
  qed
qed

lemma foldl_sort_insert_sorted:
  assumes c: "consistent cmp S"
  shows "set xs \<subseteq> S \<Longrightarrow> set acc \<subseteq> S \<Longrightarrow> sorted_wrt (\<lambda>a b. \<not> cf_lt cmp a b) acc \<Longrightarrow>
     sorted_wrt (\<lambda>a b. \<not> cf_lt cmp a b) (foldl (\<lambda>acc x. sort_insert cmp x acc) acc xs)"
proof (induction xs arbitrary: acc)
  case Nil
  then show ?case by simp
next
  case (Cons x xs)
  from Cons.prems have x: "x \<in> S" by simp
  from sorted_sort_insert [OF c x Cons.prems(2,3)] Cons.prems(1,2) x
  show ?case by (simp add: Cons.IH set_sort_insert)
qed

lemma foldl_sort_insert_filter:
  assumes c: "consistent cmp S" and p: "p \<in> S"
  shows "set xs \<subseteq> S \<Longrightarrow> set acc \<subseteq> S \<Longrightarrow>
     filter (cf_eq cmp p) (foldl (\<lambda>acc x. sort_insert cmp x acc) acc xs)
       = rev (filter (cf_eq cmp p) xs) @ filter (cf_eq cmp p) acc"
proof (induction xs arbitrary: acc)
  case Nil
  then show ?case by simp
next
  case (Cons x xs)
  from Cons.prems have x: "x \<in> S" by simp
  from filter_sort_insert [OF c x p Cons.prems(2)] Cons.prems(1,2) x
  show ?case by (simp add: Cons.IH set_sort_insert)
qed

lemma insertion_sort_conforms: "conforms insertion_sort"
  unfolding conforms_def
proof (intro allI conjI impI ballI)
  fix cmp :: "'a \<Rightarrow> 'a \<Rightarrow> int option" and xs
  show "mset (insertion_sort cmp xs) = mset xs" by (rule mset_insertion_sort)
next
  fix cmp :: "'a \<Rightarrow> 'a \<Rightarrow> int option" and xs
  assume c: "consistent cmp (set xs)"
  from foldl_sort_insert_sorted [OF c, of xs "[]"]
  have "sorted_wrt (\<lambda>a b. \<not> cf_lt cmp a b) (foldl (\<lambda>acc x. sort_insert cmp x acc) [] xs)"
    by simp
  then show "sorted_wrt (\<lambda>a b. \<not> cf_lt cmp b a) (insertion_sort cmp xs)"
    by (simp add: insertion_sort_def sorted_wrt_rev)
next
  fix cmp :: "'a \<Rightarrow> 'a \<Rightarrow> int option" and xs p
  assume c: "consistent cmp (set xs)" and p: "p \<in> set xs"
  from foldl_sort_insert_filter [OF c p, of xs "[]"]
  show "filter (cf_eq cmp p) (insertion_sort cmp xs) = filter (cf_eq cmp p) xs"
    by (simp add: insertion_sort_def rev_filter [symmetric])
qed

lemma compare_valid:
  assumes "dated a \<longrightarrow> toTime (end_date a) \<noteq> None" "dated b \<longrightarrow> toTime (end_date b) \<noteq> None"
  shows "compareEndDate toTime a b \<noteq> None"
    and "cf_lt (compareEndDate toTime) a b = (end_key toTime a < end_key toTime b)"
    and "cf_eq (compareEndDate toTime) a b = (end_key toTime a = end_key toTime b)"
    and "cf_gt (compareEndDate toTime) a b = (end_key toTime b < end_key toTime a)"
  using assms
  by (auto simp: compareEndDate_def cf_lt_def cf_eq_def cf_gt_def end_key_def end_time_def
        dated_def split: option.splits)

lemma valid_dates_consistent:
  assumes "valid_dates toTime ps"
  shows "consistent (compareEndDate toTime) (set ps)"
proof -
  have v: "dated a \<longrightarrow> toTime (end_date a) \<noteq> None" if "a \<in> set ps" for a
    using assms that by (auto simp: valid_dates_def list_all_iff)
  show ?thesis
    unfolding consistent_def
    by (intro conjI ballI impI) (auto simp: compare_valid v)
qed

section \<open>Properties of the filesystem build\<close>

lemma process_project_skip:
  "\<not> emits d \<Longrightarrow>
     projects (process_project pub f d st) = projects st
     \<and> projectId (process_project pub f d st) = projectId st"
  by (cases "sidecar d") (simp_all add: process_project_def emits_def Let_def split: prod.splits)


lemma process_project_emit:
  "emits d \<Longrightarrow>
     projects (process_project pub f d st) = projects st @ [record_of pub (projectId st) f d]
     \<and> projectId (process_project pub f d st) = Suc (projectId st)"
  by (cases "sidecar d")
     (simp_all add: process_project_def emits_def record_of_def document_def Let_def
        split: prod.splits)



lemma process_folders_records:
  "process_folders pub es st = Inr st' \<Longrightarrow>
     projects st' =
       projects st
         @ map (\<lambda>(n, f, d). record_of pub n f d)
             (enumerate (projectId st) (filter (\<lambda>(f, d). emits d) (candidates es)))
     \<and> projectId st' = projectId st + length (filter (\<lambda>(f, d). emits d) (candidates es))"
proof (induction pub es st rule: process_folders.induct)
  case (4 pub folder d rest st)
  let ?st1 = "process_project pub folder d st"
  from 4 have IH: "projects st' =
       projects ?st1
         @ map (\<lambda>(n, f, d). record_of pub n f d)
             (enumerate (projectId ?st1) (filter (\<lambda>(f, d). emits d) (candidates rest)))
     \<and> projectId st' = projectId ?st1 + length (filter (\<lambda>(f, d). emits d) (candidates rest))"
    by simp
  show ?case
  proof (cases "emits d")
    case True
    from process_project_emit [OF True, of pub folder st] IH True
    show ?thesis by simp
  next
    case False
    from process_project_skip [OF False, of pub folder st] IH False
    show ?thesis by simp
  qed
qed simp_all

lemma map_fst_enumerate: "map fst (enumerate n xs) = [n ..< n + length xs]"
  by (simp add: enumerate_eq_zip)

lemma record_of_id: "project_id (record_of pub n f d) = n"
  by (simp add: record_of_def build_project_def)

lemma enumerated_ids:
  "map project_id (map (\<lambda>(n, f, d). record_of pub n f d) (enumerate n xs)) = [n ..< n + length xs]"
proof -
  have "map project_id (map (\<lambda>(n, f, d). record_of pub n f d) (enumerate n xs))
      = map fst (enumerate n xs)"
    by (simp add: record_of_id split_def comp_def)
  then show ?thesis by (simp only: map_fst_enumerate)
qed

lemma process_folders_total:
  "all_stat es \<Longrightarrow> \<exists>st'. process_folders pub es st = Inr st'"
  unfolding all_stat_def
  by (induction pub es st rule: process_folders.induct) simp_all


lemma build_written:
  assumes "projects_root w = RootEntries es" "writable w"
    "process_folders (public_exists w) es \<lparr>console = [Scanning], projects = [], projectId = 1\<rparr> = Inr st"
  shows "build_world srt toTime w = w\<lparr>manifest := Some (srt (compareEndDate toTime) (projects st))\<rparr>"
    and "build_console srt toTime w =
           console st @ [Built (length (srt (compareEndDate toTime) (projects st))),
                         OutputPath outputPath]
             @ map summary (srt (compareEndDate toTime) (projects st))"
  using assms
  by (simp_all add: build_world_def build_console_def buildProjectsJson_def build_body_def Let_def)


lemma build_body_written:
  assumes "projects_root w = RootEntries es" "build_body srt toTime w c0 = Inr (w', c)"
  shows "\<exists>st. process_folders (public_exists w) es \<lparr>console = c0, projects = [], projectId = 1\<rparr> = Inr st
           \<and> writable w
           \<and> w' = w\<lparr>manifest := Some (srt (compareEndDate toTime) (projects st))\<rparr>"
  using assms
  by (auto simp: build_body_def Let_def split: sum.splits if_splits)

lemma build_body_total:
  assumes "projects_root w = RootEntries es" "writable w" "all_stat es"
  shows "\<exists>w' c. build_body srt toTime w c0 = Inr (w', c)"
proof -
  from process_folders_total [OF assms(3)]
  obtain st where "process_folders (public_exists w) es
      \<lparr>console = c0, projects = [], projectId = 1\<rparr> = Inr st" by blast
  with assms(1,2) show ?thesis by (simp add: build_body_def Let_def)
qed

text \<open>
  C8. When the projects root does not exist, \<^verbatim>\<open>buildProjectsJson\<close> prints the error and
  returns: the world after the call is the world before it, the manifest with it.
\<close>

theorem missing_root_writes_nothing:
  "projects_root w = RootAbsent \<Longrightarrow>
     buildProjectsJson srt toTime w = Inr (w, [Scanning, RootNotFound projectsDir])
     \<and> build_world srt toTime w = w
     \<and> manifest (build_world srt toTime w) = manifest w
     \<and> list_ex is_error (build_console srt toTime w)"
  by (simp add: buildProjectsJson_def build_world_def build_console_def)

theorem missing_root_writes_nothing_witness:
  "projects_root no_root_world = RootAbsent
   \<and> manifest (build_world insertion_sort no_dates no_root_world) = Some old_manifest
   \<and> buildProjectsJson insertion_sort no_dates no_root_world
       = Inr (no_root_world, [Scanning, RootNotFound ''public/projects''])"
proof -
  have root: "projects_root no_root_world = RootAbsent"
    by (simp add: no_root_world_def)
  have old: "manifest no_root_world = Some old_manifest"
    by (simp add: no_root_world_def)
  from missing_root_writes_nothing [OF root, of insertion_sort no_dates] root old
  show ?thesis by (simp add: projectsDir_def)
qed

text \<open>
  C5. The filesystem build ends with status 0 on every input: an exception raised in the
  \<^verbatim>\<open>try\<close> block is printed and changes nothing. The database export ends with status 1
  whenever an exception leaves its \<^verbatim>\<open>try\<close> block.
\<close>

theorem exit_status:
  "build_exit_code srt toTime w = 0
   \<and> (\<forall>e c. projects_root w \<noteq> RootAbsent \<and> build_body srt toTime w [Scanning] = Inl (e, c)
          \<longrightarrow> build_console srt toTime w = c @ [BuildError] \<and> build_world srt toTime w = w)
   \<and> (\<forall>e d' c. export_body d = Inl (e, d', c)
          \<longrightarrow> export_exit_code d = 1 \<and> export_exit_code d \<noteq> 0
              \<and> exportProjectsToJson d = (d', c @ [ExportError], 1))"
  by (auto simp: build_exit_code_def buildProjectsJson_def build_console_def build_world_def
        export_exit_code_def exportProjectsToJson_def split: sum.splits prod.splits root.splits)

lemma dangling_body:
  "build_body insertion_sort no_dates dangling_world [Scanning]
     = Inl (StatFailed ''public/projects/gone'', [Scanning])"
  by (simp add: build_body_def dangling_world_def join_path_def projectsDir_def)

lemma no_technologies_body:
  "export_body no_technologies_world
     = Inl (NoSuchTable ''technologies'', no_technologies_world, [])"
  by code_simp

theorem exit_status_witness:
  "projects_root dangling_world \<noteq> RootAbsent
   \<and> build_body insertion_sort no_dates dangling_world [Scanning]
       = Inl (StatFailed ''public/projects/gone'', [Scanning])
   \<and> build_console insertion_sort no_dates dangling_world = [Scanning, BuildError]
   \<and> build_exit_code insertion_sort no_dates dangling_world = 0
   \<and> export_body no_technologies_world
       = Inl (NoSuchTable ''technologies'', no_technologies_world, [])
   \<and> export_exit_code no_technologies_world = 1"
proof -
  have root: "projects_root dangling_world \<noteq> RootAbsent"
    by (simp add: dangling_world_def)
  from exit_status [of insertion_sort no_dates dangling_world no_technologies_world]
    root dangling_body no_technologies_body
  show ?thesis by simp
qed






section \<open>Properties of the database export\<close>

lemma map_of_set_key:
  "map_of (set_key k v kvs) k' = (if k' = k then Some v else map_of kvs k')"
  by (induction kvs) auto

lemma map_of_spread: "map_of (spread r) k = map_option Col (map_of r k)"
  by (induction r) (auto simp: spread_def)

lemma find_map_of:
  "map_of (map (\<lambda>t. (k t, t)) xs) key = find (\<lambda>t. k t = key) xs"
  by (induction xs) auto

lemma techMap_technology_of:
  "techMap technologies (toLowerCase (trim segment)) = technology_of technologies segment"
  by (simp add: techMap_def technology_of_def rev_map find_map_of)

lemma techWithIcons_entry_of:
  "techWithIcons (techMap technologies) segment = entry_of technologies segment"
  by (simp add: techWithIcons_def entry_of_def techMap_technology_of split: option.splits)

lemma techArray_to_js:
  "techArray (Some (to_js v)) = Inr segs \<Longrightarrow> segs = segments_of v"
  by (cases v) (auto simp: to_js_def segments_of_def split: if_splits)

lemma withTechArray_row:
  assumes "withTechArray (techMap technologies) (row_object r) = Inr out"
  shows "out = written_record technologies r"
proof -
  have tech: "map_of (row_object r) ''tech'' = Some (to_js (s_tech r))"
    by (simp add: row_object_def)
  from assms obtain segs where segs: "techArray (Some (to_js (s_tech r))) = Inr segs"
    and out: "out = set_key ''tech'' (Tech (map (techWithIcons (techMap technologies)) segs))
                      (spread (row_object r))"
    by (auto simp: withTechArray_def tech split: sum.splits)
  from techArray_to_js [OF segs] have "segs = segments_of (s_tech r)" .
  with out show ?thesis
    by (simp add: written_record_def row_object_def spread_def techWithIcons_entry_of)
qed

lemma map_rows_rows:
  "map_rows (techMap technologies) (map row_object rs) = Inr outs \<Longrightarrow>
     outs = map (written_record technologies) rs"
proof (induction rs arbitrary: outs)
  case Nil
  then show ?case by simp
next
  case (Cons r rs)
  then obtain out outs' where o: "withTechArray (techMap technologies) (row_object r) = Inr out"
      "map_rows (techMap technologies) (map row_object rs) = Inr outs'" "outs = out # outs'"
    by (auto split: sum.splits)
  from withTechArray_row [OF o(1)] Cons.IH [OF o(2)] o(3) show ?case by simp
qed

lemma export_body_Inr:
  assumes "export_body w = Inr (w', c)"
  shows "\<exists>db' t tt.
           database w' = Some db' \<and> projects_table db' = Some t
         \<and> technologies_table db' = Some tt
         \<and> json w' = Some (map (written_record (tech_rows tt)) (order_by (rows t)))"
proof -
  from assms obtain db where db: "database w = Some db"
    by (auto simp: export_body_def split: option.splits)
  from assms db obtain db' blog where
    boot: "(if \<not> tableExists db then bootstrap (now w) db else Inr (db, [])) = Inr (db', blog)"
    by (auto simp: export_body_def split: sum.splits prod.splits)
  from assms db boot obtain prows where prows: "select_projects db' = Inr prows"
    by (auto simp: export_body_def Let_def
          split: sum.splits prod.splits if_splits)
  from assms db boot prows obtain technologies where
    techs: "select_technologies db' = Inr technologies"
    by (auto simp: export_body_def Let_def split: sum.splits prod.splits if_splits)
  from assms db boot prows techs obtain outs where
    outs: "map_rows (techMap technologies) prows = Inr outs"
    by (auto simp: export_body_def Let_def split: sum.splits prod.splits if_splits)
  from assms db boot prows techs outs have
    w': "w' = w\<lparr>database := Some db', public_dir := True, json := Some outs\<rparr>"
    by (auto simp: export_body_def Let_def split: sum.splits prod.splits if_splits)
  from prows obtain t where t: "projects_table db' = Some t"
    "prows = map row_object (order_by (rows t))"
    by (auto simp: select_projects_def split: option.splits)
  from techs obtain tt where tt: "technologies_table db' = Some tt" "technologies = tech_rows tt"
    by (auto simp: select_technologies_def split: option.splits)
  from map_rows_rows [of technologies "order_by (rows t)" outs] outs t(2) tt(2)
  have "outs = map (written_record (tech_rows tt)) (order_by (rows t))" by simp
  with w' t(1) tt(1) show ?thesis by simp
qed

lemma export_world_Inr: "export_body w = Inr (w', c) \<Longrightarrow> export_world w = w'"
  by (simp add: export_world_def exportProjectsToJson_def)

lemma export_succeeds:
  "export_exit_code w = 0 \<Longrightarrow> \<exists>d' c. export_body w = Inr (d', c)"
  by (auto simp: export_exit_code_def exportProjectsToJson_def split: sum.splits)

lemma set_order_insert: "set (order_insert r ss) = insert r (set ss)"
  by (induction ss) auto

lemma sorted_order_insert:
  "sorted_wrt (\<lambda>a b. order_key b \<le> order_key a) ss \<Longrightarrow>
     sorted_wrt (\<lambda>a b. order_key b \<le> order_key a) (order_insert r ss)"
  by (induction ss) (auto simp: set_order_insert)

lemma sorted_foldl_order_insert:
  "sorted_wrt (\<lambda>a b. order_key b \<le> order_key a) acc \<Longrightarrow>
     sorted_wrt (\<lambda>a b. order_key b \<le> order_key a) (foldl (\<lambda>acc r. order_insert r acc) acc rs)"
  by (induction rs arbitrary: acc) (simp_all add: sorted_order_insert)

lemma sorted_order_by: "sorted_wrt (\<lambda>a b. order_key b \<le> order_key a) (order_by rs)"
  by (simp add: order_by_def sorted_foldl_order_insert)

lemma mset_order_insert: "mset (order_insert r ss) = add_mset r (mset ss)"
  by (induction ss) simp_all

lemma mset_foldl_order_insert:
  "mset (foldl (\<lambda>acc r. order_insert r acc) acc rs) = mset acc + mset rs"
  by (induction rs arbitrary: acc) (simp_all add: mset_order_insert)

lemma mset_order_by: "mset (order_by rs) = mset rs"
  by (simp add: order_by_def mset_foldl_order_insert)

lemma js_number_safe: "\<bar>i\<bar> \<le> 9007199254740992 \<Longrightarrow> js_number i = i"
  by (simp add: js_number_def)

lemma legacy_export:
  "export_body legacy_world
     = Inr (legacy_world
              \<lparr>json := Some [written_record (tech_rows two_technologies) legacy_row]\<rparr>,
            [Exported, TotalProjects 1])"
  by code_simp

lemma legacy_record:
  "written_record (tech_rows two_technologies) legacy_row =
     [(''id'', Col (SInt 7)), (''title'', Col (SText ''Ray tracer'')),
      (''description'', Col (SText ''A toy'')), (''image'', Col (SText ''rt.png'')),
      (''tech'', Tech [\<lparr>name = ''Rust'', icon = Some ''/portfolio/icons/rust.svg'',
                        iconType = Some ''svg''\<rparr>,
                       \<lparr>name = [], icon = None, iconType = None\<rparr>,
                       \<lparr>name = ''C++'', icon = Some ''/portfolio/icons/c++.svg'',
                        iconType = Some ''svg''\<rparr>]),
      (''start_date'', Col (SText ''2023-01-01'')),
      (''end_date'', Col (SText ''2024-06-30'')),
      (''created_at'', Col (SText ''2024-01-01 00:00:00'')),
      (''updated_at'', Col (SText ''2024-01-02 00:00:00''))]"
  by code_simp

text \<open>
  C10, as amended. When the export writes its manifest, there is one record for each row of
  the projects table, and the record holds the nine columns of its row in column order: the
  id, the title, the description, the image, both dates and both timestamps with the values
  the driver hands over, and under \<^verbatim>\<open>tech\<close> the technology array. The driver hands over a
  text, a NULL, a real and a blob as stored, and an integer as the nearest double, which is
  the integer itself up to \<open>2\<^sup>5\<^sup>3\<close> in magnitude. The array has one entry for each segment
  between the commas of a tech text that is not empty: the trimmed segment as name, and the
  icon path and type of the last technology row whose name is the trimmed segment up to
  case, or nulls when there is no such row.
\<close>

theorem export_keeps_columns:
  assumes "export_body w = Inr (w', c)"
  shows "(\<exists>db' t tt rs.
           database w' = Some db' \<and> projects_table db' = Some t
         \<and> technologies_table db' = Some tt \<and> mset rs = mset (rows t)
         \<and> json (export_world w) =
             Some (map (\<lambda>r.
                     [(''id'', Col (SInt (js_number (s_id r)))),
                      (''title'', Col (to_js (s_title r))),
                      (''description'', Col (to_js (s_description r))),
                      (''image'', Col (to_js (s_image r))),
                      (''tech'',
                       Tech (map (\<lambda>segment.
                               \<lparr>name = trim segment,
                                icon = map_option icon_path
                                  (find (\<lambda>t. toLowerCase (tech_name t) = toLowerCase (trim segment))
                                     (rev (tech_rows tt))),
                                iconType = map_option icon_type
                                  (find (\<lambda>t. toLowerCase (tech_name t) = toLowerCase (trim segment))
                                     (rev (tech_rows tt)))\<rparr>)
                             (case s_tech r of
                                SText s \<Rightarrow> if s = [] then [] else split CHR '','' s
                              | _ \<Rightarrow> []))),
                      (''start_date'', Col (to_js (s_start_date r))),
                      (''end_date'', Col (to_js (s_end_date r))),
                      (''created_at'', Col (to_js (s_created_at r))),
                      (''updated_at'', Col (to_js (s_updated_at r)))]) rs))
       \<and> (\<forall>s. to_js (SText s) = SText s) \<and> to_js SNull = SNull
       \<and> (\<forall>q. to_js (SReal q) = SReal q) \<and> (\<forall>b. to_js (SBlob b) = SBlob b)
       \<and> (\<forall>i. to_js (SInt i) = SInt (js_number i))
       \<and> (\<forall>i. \<bar>i\<bar> \<le> 9007199254740992 \<longrightarrow> js_number i = i)"
proof -
  from export_body_Inr [OF assms]
  obtain db' t tt where db: "database w' = Some db'" "projects_table db' = Some t"
      "technologies_table db' = Some tt"
    and out: "json w' = Some (map (written_record (tech_rows tt)) (order_by (rows t)))"
    by blast
  have "mset (order_by (rows t)) = mset (rows t)" by (rule mset_order_by)
  moreover from out export_world_Inr [OF assms]
  have "json (export_world w) =
             Some (map (\<lambda>r.
                     [(''id'', Col (SInt (js_number (s_id r)))),
                      (''title'', Col (to_js (s_title r))),
                      (''description'', Col (to_js (s_description r))),
                      (''image'', Col (to_js (s_image r))),
                      (''tech'',
                       Tech (map (\<lambda>segment.
                               \<lparr>name = trim segment,
                                icon = map_option icon_path
                                  (find (\<lambda>t. toLowerCase (tech_name t) = toLowerCase (trim segment))
                                     (rev (tech_rows tt))),
                                iconType = map_option icon_type
                                  (find (\<lambda>t. toLowerCase (tech_name t) = toLowerCase (trim segment))
                                     (rev (tech_rows tt)))\<rparr>)
                             (case s_tech r of
                                SText s \<Rightarrow> if s = [] then [] else split CHR '','' s
                              | _ \<Rightarrow> []))),
                      (''start_date'', Col (to_js (s_start_date r))),
                      (''end_date'', Col (to_js (s_end_date r))),
                      (''created_at'', Col (to_js (s_created_at r))),
                      (''updated_at'', Col (to_js (s_updated_at r)))]) (order_by (rows t)))"
    by (simp add: written_record_def entry_of_def segments_of_def technology_of_def)
  ultimately have first: "\<exists>db' t tt rs.
           database w' = Some db' \<and> projects_table db' = Some t
         \<and> technologies_table db' = Some tt \<and> mset rs = mset (rows t)
         \<and> json (export_world w) =
             Some (map (\<lambda>r.
                     [(''id'', Col (SInt (js_number (s_id r)))),
                      (''title'', Col (to_js (s_title r))),
                      (''description'', Col (to_js (s_description r))),
                      (''image'', Col (to_js (s_image r))),
                      (''tech'',
                       Tech (map (\<lambda>segment.
                               \<lparr>name = trim segment,
                                icon = map_option icon_path
                                  (find (\<lambda>t. toLowerCase (tech_name t) = toLowerCase (trim segment))
                                     (rev (tech_rows tt))),
                                iconType = map_option icon_type
                                  (find (\<lambda>t. toLowerCase (tech_name t) = toLowerCase (trim segment))
                                     (rev (tech_rows tt)))\<rparr>)
                             (case s_tech r of
                                SText s \<Rightarrow> if s = [] then [] else split CHR '','' s
                              | _ \<Rightarrow> []))),
                      (''start_date'', Col (to_js (s_start_date r))),
                      (''end_date'', Col (to_js (s_end_date r))),
                      (''created_at'', Col (to_js (s_created_at r))),
                      (''updated_at'', Col (to_js (s_updated_at r)))]) rs)"
    using db by (intro exI [of _ db'] exI [of _ t] exI [of _ tt] exI [of _ "order_by (rows t)"] conjI)
  have rest: "(\<forall>s. to_js (SText s) = SText s) \<and> to_js SNull = SNull
       \<and> (\<forall>q. to_js (SReal q) = SReal q) \<and> (\<forall>b. to_js (SBlob b) = SBlob b)
       \<and> (\<forall>i. to_js (SInt i) = SInt (js_number i))
       \<and> (\<forall>i. \<bar>i\<bar> \<le> 9007199254740992 \<longrightarrow> js_number i = i)"
    by (simp add: to_js_def js_number_safe)
  from first rest show ?thesis by (rule conjI)
qed

theorem export_keeps_columns_witness:
  "export_body legacy_world
     = Inr (legacy_world
              \<lparr>json := Some [written_record (tech_rows two_technologies) legacy_row]\<rparr>,
            [Exported, TotalProjects 1])
   \<and> json (export_world legacy_world) =
       Some [[(''id'', Col (SInt 7)), (''title'', Col (SText ''Ray tracer'')),
              (''description'', Col (SText ''A toy'')), (''image'', Col (SText ''rt.png'')),
              (''tech'', Tech [\<lparr>name = ''Rust'', icon = Some ''/portfolio/icons/rust.svg'',
                                iconType = Some ''svg''\<rparr>,
                               \<lparr>name = [], icon = None, iconType = None\<rparr>,
                               \<lparr>name = ''C++'', icon = Some ''/portfolio/icons/c++.svg'',
                                iconType = Some ''svg''\<rparr>]),
              (''start_date'', Col (SText ''2023-01-01'')),
              (''end_date'', Col (SText ''2024-06-30'')),
              (''created_at'', Col (SText ''2024-01-01 00:00:00'')),
              (''updated_at'', Col (SText ''2024-01-02 00:00:00''))]]
   \<and> js_number 7 = 7"
proof -
  note main = export_keeps_columns [OF legacy_export]
  from main have "\<bar>7\<bar> \<le> (9007199254740992 :: int) \<longrightarrow> js_number 7 = 7" by blast
  then have seven: "js_number 7 = 7" by simp
  have "json (export_world legacy_world)
      = Some [written_record (tech_rows two_technologies) legacy_row]"
    using export_world_Inr [OF legacy_export] by simp
  with legacy_record legacy_export seven show ?thesis by simp
qed

text \<open>
  A row whose id is \<open>2\<^sup>5\<^sup>3 + 1\<close>: the record written for it has the id \<open>2\<^sup>5\<^sup>3\<close>.
\<close>

theorem large_id_counterexample:
  "database large_id_world
     = Some \<lparr>projects_table =
               Some \<lparr>table_name = ''projects'', not_null = [''title''], rows = [large_row],
                     seq = 9007199254740993\<rparr>,
             projects_new_table = None, technologies_table = Some two_technologies\<rparr>
   \<and> s_id large_row = 9007199254740993
   \<and> export_exit_code large_id_world = 0
   \<and> map_option (map (\<lambda>out. column_of out ''id'')) (json (export_world large_id_world))
       = Some [Some (Col (SInt 9007199254740992))]"
  by code_simp

section \<open>Identifiers\<close>

lemma written_record_id:
  "column_of (written_record technologies r) ''id'' = Some (Col (SInt (js_number (s_id r))))"
  by (simp add: written_record_def column_of_def)

lemma two_rows_export_ids:
  "export_exit_code two_rows_world = 0
   \<and> map_option (map (\<lambda>out. column_of out ''id'')) (json (export_world two_rows_world))
       = Some [Some (Col (SInt 9)), Some (Col (SInt 7))]"
  by code_simp

lemma four_folders_build_ids:
  "map_option (map project_id)
     (manifest (build_world insertion_sort some_dates four_folders_world)) = Some [3, 1, 2]"
  by code_simp

text \<open>
  C4, as amended. The filesystem build numbers the records of the candidate directories
  whose sidecar loads to a truthy document 1, 2, ..., \<open>N\<close> in the order of the root's
  listing, and then sorts them; the manifest it writes is that sorted list, so its ids are
  the numbers 1 to \<open>N\<close>, each once. The manifest that was there before has no part in it. In
  a manifest written by the database export the id of a record is the id stored in its row,
  as the driver hands it over: the stored id when its magnitude is at most \<open>2\<^sup>5\<^sup>3\<close>.
\<close>

theorem ids_of_the_manifests:
  "(\<forall>es w' c. projects_root w = RootEntries es \<and> build_body srt toTime w [Scanning] = Inr (w', c) \<longrightarrow>
      manifest (build_world srt toTime w) =
        Some (srt (compareEndDate toTime)
                (map (\<lambda>(n, f, d). record_of (public_exists w) n f d)
                   (enumerate 1 (filter (\<lambda>(f, d). emits d) (candidates es)))))
    \<and> map project_id
        (map (\<lambda>(n, f, d). record_of (public_exists w) n f d)
           (enumerate 1 (filter (\<lambda>(f, d). emits d) (candidates es))))
        = [1 ..< Suc (length (filter (\<lambda>(f, d). emits d) (candidates es)))]
    \<and> (conforms srt \<longrightarrow>
         (\<exists>recs. manifest (build_world srt toTime w) = Some recs
            \<and> mset (map project_id recs) = mset [1 ..< Suc (length recs)]
            \<and> distinct (map project_id recs)))
    \<and> (\<forall>m. manifest (build_world srt toTime (w\<lparr>manifest := m\<rparr>))
              = manifest (build_world srt toTime w)))
   \<and> (\<forall>d' c. export_body d = Inr (d', c) \<longrightarrow>
        (\<exists>db' t rs outs.
            database d' = Some db' \<and> projects_table db' = Some t \<and> mset rs = mset (rows t)
          \<and> json (export_world d) = Some outs
          \<and> map (\<lambda>out. column_of out ''id'') outs
              = map (\<lambda>r. Some (Col (SInt (js_number (s_id r))))) rs
          \<and> (\<forall>r \<in> set rs. \<bar>s_id r\<bar> \<le> 9007199254740992 \<longrightarrow> js_number (s_id r) = s_id r)))"
proof -
  have fs: "manifest (build_world srt toTime w) =
        Some (srt (compareEndDate toTime)
                (map (\<lambda>(n, f, d). record_of (public_exists w) n f d)
                   (enumerate 1 (filter (\<lambda>(f, d). emits d) (candidates es)))))
    \<and> map project_id
        (map (\<lambda>(n, f, d). record_of (public_exists w) n f d)
           (enumerate 1 (filter (\<lambda>(f, d). emits d) (candidates es))))
        = [1 ..< Suc (length (filter (\<lambda>(f, d). emits d) (candidates es)))]
    \<and> (conforms srt \<longrightarrow>
         (\<exists>recs. manifest (build_world srt toTime w) = Some recs
            \<and> mset (map project_id recs) = mset [1 ..< Suc (length recs)]
            \<and> distinct (map project_id recs)))
    \<and> (\<forall>m. manifest (build_world srt toTime (w\<lparr>manifest := m\<rparr>))
              = manifest (build_world srt toTime w))"
    if root: "projects_root w = RootEntries es"
      and written: "build_body srt toTime w [Scanning] = Inr (w', c)" for es w' c
  proof -
    from build_body_written [OF root written]
    obtain st where run: "process_folders (public_exists w) es
          \<lparr>console = [Scanning], projects = [], projectId = 1\<rparr> = Inr st"
      and wr: "writable w" by blast
    let ?E = "filter (\<lambda>(f, d). emits d) (candidates es)"
    let ?ps = "map (\<lambda>(n, f, d). record_of (public_exists w) n f d) (enumerate 1 ?E)"
    let ?recs = "srt (compareEndDate toTime) ?ps"
    have ps: "projects st = ?ps"
      using process_folders_records [OF run] by simp
    have man: "manifest (build_world srt toTime w) = Some ?recs"
      using build_written(1) [OF root wr run, of srt toTime] ps by simp
    have "map project_id ?ps = [1 ..< 1 + length ?E]" by (rule enumerated_ids)
    moreover have "1 + length ?E = Suc (length ?E)" by simp
    ultimately have ids: "map project_id ?ps = [1 ..< Suc (length ?E)]" by (simp only:)
    have perm: "\<exists>recs. manifest (build_world srt toTime w) = Some recs
            \<and> mset (map project_id recs) = mset [1 ..< Suc (length recs)]
            \<and> distinct (map project_id recs)" if conf: "conforms srt"
    proof -
      from conf have ms: "mset ?recs = mset ?ps" unfolding conforms_def by blast
      from mset_eq_length [OF ms] have len: "length ?recs = length ?E" by simp
      from ms have "image_mset project_id (mset ?recs) = image_mset project_id (mset ?ps)"
        by (rule arg_cong)
      then have "mset (map project_id ?recs) = mset (map project_id ?ps)"
        by (simp only: mset_map)
      with ids len have m: "mset (map project_id ?recs) = mset [1 ..< Suc (length ?recs)]"
        by (simp only:)
      have "distinct [1 ..< Suc (length ?recs)]" by (rule distinct_upt)
      with m have "distinct (map project_id ?recs)"
        by (metis mset_eq_imp_distinct_iff)
      with man m show ?thesis by blast
    qed
    have old: "manifest (build_world srt toTime (w\<lparr>manifest := m\<rparr>))
              = manifest (build_world srt toTime w)" for m
    proof -
      have "projects_root (w\<lparr>manifest := m\<rparr>) = RootEntries es" "writable (w\<lparr>manifest := m\<rparr>)"
        "process_folders (public_exists (w\<lparr>manifest := m\<rparr>)) es
          \<lparr>console = [Scanning], projects = [], projectId = 1\<rparr> = Inr st"
        using root wr run by simp_all
      from build_written(1) [OF this, of srt toTime] build_written(1) [OF root wr run, of srt toTime]
      show ?thesis by simp
    qed
    from man ids perm old show ?thesis by blast
  qed
  have db: "\<exists>db' t rs outs.
            database d' = Some db' \<and> projects_table db' = Some t \<and> mset rs = mset (rows t)
          \<and> json (export_world d) = Some outs
          \<and> map (\<lambda>out. column_of out ''id'') outs
              = map (\<lambda>r. Some (Col (SInt (js_number (s_id r))))) rs
          \<and> (\<forall>r \<in> set rs. \<bar>s_id r\<bar> \<le> 9007199254740992 \<longrightarrow> js_number (s_id r) = s_id r)"
    if ok: "export_body d = Inr (d', c)" for d' c
  proof -
    from export_body_Inr [OF ok]
    obtain db' t tt where db: "database d' = Some db'" "projects_table db' = Some t"
      and tt: "technologies_table db' = Some tt"
      and out: "json d' = Some (map (written_record (tech_rows tt)) (order_by (rows t)))"
      by blast
    let ?rs = "order_by (rows t)"
    have "mset ?rs = mset (rows t)" by (rule mset_order_by)
    moreover from out export_world_Inr [OF ok]
    have "json (export_world d) = Some (map (written_record (tech_rows tt)) ?rs)" by simp
    moreover have "map (\<lambda>out. column_of out ''id'') (map (written_record (tech_rows tt)) ?rs)
              = map (\<lambda>r. Some (Col (SInt (js_number (s_id r))))) ?rs"
      by (simp add: written_record_id comp_def)
    moreover have "\<forall>r \<in> set ?rs. \<bar>s_id r\<bar> \<le> 9007199254740992 \<longrightarrow> js_number (s_id r) = s_id r"
      by (simp add: js_number_safe)
    ultimately show ?thesis using db by blast
  qed
  from fs db show ?thesis by blast
qed

theorem ids_of_the_manifests_witness:
  "projects_root four_folders_world = RootEntries four_folders
   \<and> (\<exists>w' c. build_body insertion_sort some_dates four_folders_world [Scanning] = Inr (w', c))
   \<and> (\<exists>recs. manifest (build_world insertion_sort some_dates four_folders_world) = Some recs
         \<and> mset (map project_id recs) = mset [1 ..< Suc (length recs)])
   \<and> map_option (map project_id)
       (manifest (build_world insertion_sort some_dates four_folders_world)) = Some [3, 1, 2]
   \<and> (\<exists>d' c. export_body two_rows_world = Inr (d', c))
   \<and> (\<exists>(rs :: stored_row list) outs.
          json (export_world two_rows_world) = Some outs
        \<and> map (\<lambda>out. column_of out ''id'') outs
            = map (\<lambda>r. Some (Col (SInt (js_number (s_id r))))) rs)
   \<and> map_option (map (\<lambda>out. column_of out ''id'')) (json (export_world two_rows_world))
       = Some [Some (Col (SInt 9)), Some (Col (SInt 7))]"
proof -
  have root: "projects_root four_folders_world = RootEntries four_folders"
    by (simp add: four_folders_world_def)
  have "\<exists>w' c. build_body insertion_sort some_dates four_folders_world [Scanning] = Inr (w', c)"
    by (rule build_body_total [OF root])
       (simp_all add: four_folders_world_def four_folders_def all_stat_def)
  then obtain w' c where
    written: "build_body insertion_sort some_dates four_folders_world [Scanning] = Inr (w', c)"
    by blast
  from export_succeeds two_rows_export_ids
  obtain d' c' where ok: "export_body two_rows_world = Inr (d', c')" by blast
  note main = ids_of_the_manifests [of four_folders_world insertion_sort some_dates two_rows_world]
  from main [THEN conjunct1, rule_format, OF conjI [OF root written],
      THEN conjunct2, THEN conjunct2, THEN conjunct1, rule_format, OF insertion_sort_conforms]
  obtain recs where "manifest (build_world insertion_sort some_dates four_folders_world) = Some recs"
    "mset (map project_id recs) = mset [1 ..< Suc (length recs)]"
    by (elim exE conjE)
  then have fs: "\<exists>recs. manifest (build_world insertion_sort some_dates four_folders_world) = Some recs
         \<and> mset (map project_id recs) = mset [1 ..< Suc (length recs)]"
    by (intro exI [of _ recs] conjI)
  from main [THEN conjunct2, rule_format, OF ok]
  obtain rs :: "stored_row list" and outs
    where "json (export_world two_rows_world) = Some outs"
    "map (\<lambda>out. column_of out ''id'') outs = map (\<lambda>r. Some (Col (SInt (js_number (s_id r))))) rs"
    by blast
  then have db: "\<exists>(rs :: stored_row list) outs.
          json (export_world two_rows_world) = Some outs
        \<and> map (\<lambda>out. column_of out ''id'') outs
            = map (\<lambda>r. Some (Col (SInt (js_number (s_id r))))) rs"
    by (intro exI [of _ rs] exI [of _ outs] conjI)
  have ex1: "\<exists>w' c. build_body insertion_sort some_dates four_folders_world [Scanning] = Inr (w', c)"
    using written by blast
  have ex2: "\<exists>d' c. export_body two_rows_world = Inr (d', c)" using ok by blast
  from four_folders_build_ids two_rows_export_ids
  show ?thesis by (intro conjI root ex1 fs ex2 db) simp_all
qed

text \<open>
  A store whose only project row has id 7: the export writes one record, with id 7.
\<close>

theorem stored_ids_counterexample:
  "export_exit_code legacy_world = 0
   \<and> s_id legacy_row = 7
   \<and> json (export_world legacy_world)
       = Some [[(''id'', Col (SInt 7)), (''title'', Col (SText ''Ray tracer'')),
                (''description'', Col (SText ''A toy'')), (''image'', Col (SText ''rt.png'')),
                (''tech'', Tech [\<lparr>name = ''Rust'', icon = Some ''/portfolio/icons/rust.svg'',
                                  iconType = Some ''svg''\<rparr>,
                                 \<lparr>name = [], icon = None, iconType = None\<rparr>,
                                 \<lparr>name = ''C++'', icon = Some ''/portfolio/icons/c++.svg'',
                                  iconType = Some ''svg''\<rparr>]),
                (''start_date'', Col (SText ''2023-01-01'')),
                (''end_date'', Col (SText ''2024-06-30'')),
                (''created_at'', Col (SText ''2024-01-01 00:00:00'')),
                (''updated_at'', Col (SText ''2024-01-02 00:00:00''))]]"
  by code_simp

section \<open>Schema migration\<close>

lemma new_schema_is_not_old: "\<not> hasOldSchema (table_info (new_table n))"
  by (simp add: hasOldSchema_def table_info_def new_table_def column_names_def)

lemma existing_table_untouched:
  "database w = Some db \<Longrightarrow> projects_table db = Some t \<Longrightarrow> table_name t = ''projects'' \<Longrightarrow>
     database (export_world w) = Some db
     \<and> set (fst (snd (exportProjectsToJson w))) \<subseteq> {Exported, ExportError} \<union> range TotalProjects"
  by (auto simp: export_world_def exportProjectsToJson_def export_body_def tableExists_def Let_def
        split: sum.splits if_splits)

lemma migrate_console:
  "migrate db = (db', mlog) \<Longrightarrow> Migrating \<in> set mlog \<or> MigrationCompleted \<in> set mlog \<Longrightarrow>
     \<exists>t. projects_table db = Some t \<and> hasOldSchema (table_info t)"
  by (auto simp: migrate_def split: option.splits if_splits sum.splits prod.splits)

lemma bootstrap_console:
  assumes "Migrating \<in> set (case bootstrap stamp db of Inl (e, db', l) \<Rightarrow> l | Inr (db', l) \<Rightarrow> l)
           \<or> MigrationCompleted \<in> set (case bootstrap stamp db of Inl (e, db', l) \<Rightarrow> l | Inr (db', l) \<Rightarrow> l)"
  shows "\<exists>t. projects_table db = Some t \<and> hasOldSchema (table_info t)"
proof -
  let ?db1 = "if projects_table db = None
                 then db\<lparr>projects_table := Some (new_table ''projects'')\<rparr> else db"
  let ?db2 = "if technologies_table ?db1 = None
                 then ?db1\<lparr>technologies_table := Some \<lparr>tech_rows = [], tech_seq = 0\<rparr>\<rparr>
                 else ?db1"
  obtain db3 mlog where m: "migrate ?db2 = (db3, mlog)" by (cases "migrate ?db2") blast
  have "set (case bootstrap stamp db of Inl (e, db', l) \<Rightarrow> l | Inr (db', l) \<Rightarrow> l)
          \<subseteq> set mlog \<union> {TableMissing, TechnologiesInserted, SampleCreated}"
    using m unfolding bootstrap_def Let_def
    by (auto split: option.splits sum.splits prod.splits if_splits)
  with assms have "Migrating \<in> set mlog \<or> MigrationCompleted \<in> set mlog" by auto
  from migrate_console [OF m this]
  obtain t where t: "projects_table ?db2 = Some t" "hasOldSchema (table_info t)" by blast
  show ?thesis
  proof (cases "projects_table db")
    case None
    with t new_schema_is_not_old [of "''projects''"] show ?thesis
      by (auto split: if_splits)
  next
    case (Some t')
    with t show ?thesis by (auto split: if_splits)
  qed
qed

lemma export_console_migrating:
  assumes "Migrating \<in> set (fst (snd (exportProjectsToJson w)))
           \<or> MigrationCompleted \<in> set (fst (snd (exportProjectsToJson w)))"
  shows "\<exists>db t. database w = Some db \<and> projects_table db = Some t
           \<and> table_name t \<noteq> ''projects'' \<and> hasOldSchema (table_info t)"
proof (cases "database w")
  case None
  with assms show ?thesis by (simp add: exportProjectsToJson_def export_body_def)
next
  case (Some db)
  show ?thesis
  proof (cases "tableExists db")
    case True
    with Some assms show ?thesis
      by (auto simp: exportProjectsToJson_def export_body_def Let_def
            split: sum.splits if_splits)
  next
    case False
    have "set (fst (snd (exportProjectsToJson w)))
        \<subseteq> set (case bootstrap (now w) db of Inl (e, db', l) \<Rightarrow> l | Inr (db', l) \<Rightarrow> l)
          \<union> ({Exported, ExportError} \<union> range TotalProjects)"
      using Some False
      by (auto simp: exportProjectsToJson_def export_body_def Let_def
            split: sum.splits if_splits)
    with assms have "Migrating \<in> set (case bootstrap (now w) db of Inl (e, db', l) \<Rightarrow> l | Inr (db', l) \<Rightarrow> l)
           \<or> MigrationCompleted \<in> set (case bootstrap (now w) db of Inl (e, db', l) \<Rightarrow> l | Inr (db', l) \<Rightarrow> l)"
      by auto
    from bootstrap_console [OF this]
    obtain t where t: "projects_table db = Some t" "hasOldSchema (table_info t)" by blast
    with False have "table_name t \<noteq> ''projects''" by (simp add: tableExists_def)
    with Some t show ?thesis by blast
  qed
qed

lemma legacy_schema: "hasOldSchema (table_info (legacy_table n))"
  by (simp add: hasOldSchema_def table_info_def legacy_table_def column_names_def)

text \<open>
  A legacy table stored under the name \<^verbatim>\<open>Projects\<close>: the lookup does not find it, every
  later statement does. The table is migrated, its counter drops from 12 to the largest id
  copied, and the three samples get the ids 8, 9 and 10.
\<close>

lemma capitalised_table_is_migrated:
  "fst (snd (exportProjectsToJson capitalised_world))
     = [TableMissing, Migrating, MigrationCompleted, SampleCreated, Exported, TotalProjects 4]
   \<and> map_option (\<lambda>db. map_option (\<lambda>t. (table_name t, not_null t, map s_id (rows t), seq t))
                         (projects_table db))
       (database (export_world capitalised_world))
       = Some (Some (''projects'', [''title''], [7, 8, 9, 10], 10))"
  by code_simp

text \<open>
  C3, as the code has it. A projects table that exists under the name \<^verbatim>\<open>projects\<close> is read
  as it is, whatever its schema: the database is the same after the run, and the run prints
  neither that it migrates nor that it has migrated. The migration stands in the branch
  taken when the lookup of that name finds no table, after the statement that creates the
  table with the new schema; a run migrates only a legacy table that is stored under
  another spelling of the name.
\<close>

theorem migration_never_runs:
  "(\<forall>db t. database w = Some db \<and> projects_table db = Some t \<and> table_name t = ''projects''
           \<and> hasOldSchema (table_info t)
         \<longrightarrow> database (export_world w) = Some db
             \<and> Migrating \<notin> set (fst (snd (exportProjectsToJson w)))
             \<and> MigrationCompleted \<notin> set (fst (snd (exportProjectsToJson w))))
   \<and> (Migrating \<in> set (fst (snd (exportProjectsToJson w)))
        \<or> MigrationCompleted \<in> set (fst (snd (exportProjectsToJson w)))
      \<longrightarrow> (\<exists>db t. database w = Some db \<and> projects_table db = Some t
             \<and> table_name t \<noteq> ''projects'' \<and> hasOldSchema (table_info t)))"
proof -
  have first: "database (export_world w) = Some db
             \<and> Migrating \<notin> set (fst (snd (exportProjectsToJson w)))
             \<and> MigrationCompleted \<notin> set (fst (snd (exportProjectsToJson w)))"
    if "database w = Some db" "projects_table db = Some t" "table_name t = ''projects''" for db t
    using existing_table_untouched [OF that] by auto
  from first export_console_migrating [of w] show ?thesis by blast
qed

theorem migration_never_runs_witness:
  "database legacy_world = Some legacy_db
   \<and> projects_table legacy_db = Some (legacy_table ''projects'')
   \<and> table_name (legacy_table ''projects'') = ''projects''
   \<and> hasOldSchema (table_info (legacy_table ''projects''))
   \<and> database (export_world legacy_world) = Some legacy_db
   \<and> fst (snd (exportProjectsToJson legacy_world)) = [Exported, TotalProjects 1]
   \<and> export_exit_code legacy_world = 0"
proof -
  have db: "database legacy_world = Some legacy_db"
    by (simp add: legacy_world_def)
  have tab: "projects_table legacy_db = Some (legacy_table ''projects'')"
    by (simp add: legacy_db_def)
  have nm: "table_name (legacy_table ''projects'') = ''projects''"
    by (simp add: legacy_table_def)
  have run: "fst (snd (exportProjectsToJson legacy_world)) = [Exported, TotalProjects 1]"
    "export_exit_code legacy_world = 0"
    by (simp_all add: exportProjectsToJson_def export_exit_code_def legacy_export)
  from migration_never_runs [of legacy_world, THEN conjunct1, rule_format,
      OF conjI [OF db conjI [OF tab conjI [OF nm legacy_schema]]]]
  have "database (export_world legacy_world) = Some legacy_db" by (rule conjunct1)
  with db tab nm legacy_schema run show ?thesis by simp
qed

section \<open>Technology names\<close>

lemma resolve_icon_name: "name (resolve_icon pub t) = t"
  by (simp add: resolve_icon_def Let_def)

text \<open>The filesystem build splits, trims, and drops the empty names.\<close>

lemma fs_names:
  "map name (processTechString pub (JStr s)) = filter (\<lambda>t. t \<noteq> []) (map trim (split CHR '','' s))"
  by (simp add: techNames_def resolve_icon_name comp_def trim_def)

text \<open>The database export splits and trims, and keeps every segment.\<close>

lemma export_names:
  "withTechArray tm r = Inr out \<Longrightarrow> map_of r ''tech'' = Some (SText s) \<Longrightarrow> s \<noteq> [] \<Longrightarrow>
     \<exists>techs. column_of out ''tech'' = Some (Tech techs)
       \<and> map name techs = map trim (split CHR '','' s)"
  by (auto simp: withTechArray_def column_of_def map_of_set_key techWithIcons_def comp_def
        split: option.splits)

text \<open>
  C2 at the string \<^verbatim>\<open>React, Node.js,  MongoDB\<close> and at a string with an empty segment.
  Both pipelines give the three names of the first; of \<^verbatim>\<open>React, ,Node\<close> the filesystem build
  gives two names, and the database export three, one of them empty.
\<close>

theorem export_keeps_empty_segment:
  "map name (processTechString (\<lambda>p. False) (JStr ''React, Node.js,  MongoDB''))
     = [''React'', ''Node.js'', ''MongoDB'']
   \<and> withTechArray (techMap []) [(''tech'', SText ''React, Node.js,  MongoDB'')]
       = Inr [(''tech'', Tech [\<lparr>name = ''React'', icon = None, iconType = None\<rparr>,
                               \<lparr>name = ''Node.js'', icon = None, iconType = None\<rparr>,
                               \<lparr>name = ''MongoDB'', icon = None, iconType = None\<rparr>])]
   \<and> map name (processTechString (\<lambda>p. False) (JStr ''React, ,Node'')) = [''React'', ''Node'']
   \<and> withTechArray (techMap []) [(''id'', SInt 1), (''tech'', SText ''React, ,Node'')]
       = Inr [(''id'', Col (SInt 1)),
              (''tech'', Tech [\<lparr>name = ''React'', icon = None, iconType = None\<rparr>,
                               \<lparr>name = [], icon = None, iconType = None\<rparr>,
                               \<lparr>name = ''Node'', icon = None, iconType = None\<rparr>])]"
  by code_simp

section \<open>Order of the manifest\<close>

lemma sorted_filter_nth:
  "sorted_wrt R (filter P xs) \<Longrightarrow> i < j \<Longrightarrow> j < length xs \<Longrightarrow> P (xs ! i) \<Longrightarrow> P (xs ! j) \<Longrightarrow>
     R (xs ! i) (xs ! j)"
proof (induction xs arbitrary: i j)
  case Nil
  then show ?case by simp
next
  case (Cons x xs)
  then obtain j' where j: "j = Suc j'" by (cases j) auto
  show ?case
  proof (cases i)
    case 0
    with Cons.prems j have "P x" "xs ! j' \<in> set (filter P xs)" by auto
    with Cons.prems(1) 0 j show ?thesis by auto
  next
    case (Suc i')
    from Cons.prems(1) have "sorted_wrt R (filter P xs)" by (auto split: if_splits)
    with Cons.IH [of i' j'] Cons.prems Suc j show ?thesis by simp
  qed
qed

text \<open>
  What a conforming sort makes of records with valid dates: the keys ascend, and records
  of equal key keep the order of their ids.
\<close>

lemma conforming_sort_end_dates:
  assumes conf: "conforms srt"
    and valid: "valid_dates toTime ps"
    and ids: "sorted_wrt (<) (map project_id ps)"
  defines "recs \<equiv> srt (compareEndDate toTime) ps"
  shows "sorted (map (end_key toTime) recs)"
    and "\<And>i j. i < j \<Longrightarrow> j < length recs \<Longrightarrow> end_key toTime (recs ! i) = end_key toTime (recs ! j)
            \<Longrightarrow> project_id (recs ! i) < project_id (recs ! j)"
proof -
  let ?cmp = "compareEndDate toTime"
  have cons: "consistent ?cmp (set ps)" by (rule valid_dates_consistent [OF valid])
  from conf have ms: "mset recs = mset ps" unfolding conforms_def recs_def by blast
  then have sets: "set recs = set ps" by (rule mset_eq_setD)
  from conf cons have srt: "sorted_wrt (\<lambda>a b. \<not> cf_lt ?cmp b a) recs"
    and stable: "\<forall>p \<in> set ps. filter (cf_eq ?cmp p) recs = filter (cf_eq ?cmp p) ps"
    unfolding conforms_def recs_def by blast+
  have v: "dated a \<longrightarrow> toTime (end_date a) \<noteq> None" if "a \<in> set ps" for a
    using valid that by (auto simp: valid_dates_def list_all_iff)
  have lt: "cf_lt ?cmp a b = (end_key toTime a < end_key toTime b)"
    and eq: "cf_eq ?cmp a b = (end_key toTime a = end_key toTime b)"
    if "a \<in> set ps" "b \<in> set ps" for a b
    using compare_valid(2,3) [where a = a and b = b and toTime = toTime] v [OF that(1)] v [OF that(2)]
    by blast+
  have "sorted_wrt (\<lambda>a b. end_key toTime a \<le> end_key toTime b) recs"
  proof (rule sorted_wrt_mono_rel [OF _ srt])
    fix a b assume "a \<in> set recs" "b \<in> set recs" "\<not> cf_lt ?cmp b a"
    with sets lt [of b a] show "end_key toTime a \<le> end_key toTime b"
      by auto
  qed
  then show "sorted (map (end_key toTime) recs)"
    by (simp add: sorted_map)
  fix i j assume ij: "i < j" "j < length recs"
    and tie: "end_key toTime (recs ! i) = end_key toTime (recs ! j)"
  let ?p = "recs ! j"
  from ij sets have p: "?p \<in> set ps" "recs ! i \<in> set ps"
    by (metis nth_mem, metis nth_mem order.strict_trans)
  from stable p(1) have "filter (cf_eq ?cmp ?p) recs = filter (cf_eq ?cmp ?p) ps" by blast
  moreover have "sorted_wrt (\<lambda>a b. project_id a < project_id b) (filter (cf_eq ?cmp ?p) ps)"
    using ids by (simp add: sorted_wrt_map sorted_wrt_filter)
  ultimately have "sorted_wrt (\<lambda>a b. project_id a < project_id b) (filter (cf_eq ?cmp ?p) recs)"
    by simp
  moreover have "cf_eq ?cmp ?p (recs ! i)" "cf_eq ?cmp ?p ?p"
    using eq [OF p(1) p(2)] eq [OF p(1) p(1)] tie by simp_all
  ultimately show "project_id (recs ! i) < project_id (recs ! j)"
    using sorted_filter_nth [of "\<lambda>a b. project_id a < project_id b" "cf_eq ?cmp ?p" recs i j] ij
    by blast
qed

lemma key_order_positions:
  assumes srt: "sorted (map (end_key toTime) recs)"
  shows "\<And>i j. i < length recs \<Longrightarrow> j < length recs \<Longrightarrow> dated (recs ! i) \<Longrightarrow> dated (recs ! j)
            \<Longrightarrow> end_time toTime (recs ! j) < end_time toTime (recs ! i) \<Longrightarrow> i < j"
    and "\<And>i j. i < length recs \<Longrightarrow> j < length recs \<Longrightarrow> \<not> dated (recs ! i) \<Longrightarrow> dated (recs ! j)
            \<Longrightarrow> j < i"
proof -
  have mono: "end_key toTime (recs ! a) \<le> end_key toTime (recs ! b)"
    if "a \<le> b" "b < length recs" for a b
    using sorted_nth_mono [OF srt, of a b] that by simp
  show "i < j" if "i < length recs" "j < length recs" "dated (recs ! i)" "dated (recs ! j)"
      "end_time toTime (recs ! j) < end_time toTime (recs ! i)" for i j
  proof (rule ccontr)
    assume "\<not> i < j"
    then have "j \<le> i" by simp
    from mono [OF this that(1)] that(3-5) show False by (simp add: end_key_def)
  qed
  show "j < i" if "i < length recs" "j < length recs" "\<not> dated (recs ! i)" "dated (recs ! j)" for i j
  proof (rule ccontr)
    assume "\<not> j < i"
    then have "i \<le> j" by simp
    from mono [OF this that(2)] that(3,4) show False by (simp add: end_key_def)
  qed
qed

lemma pair_le_iff:
  fixes a c :: "'a::linorder" and b e :: "'b::linorder"
  shows "(a, b) \<le> (c, e) \<longleftrightarrow> a < c \<or> (a = c \<and> b \<le> e)"
  by (simp only: less_eq_prod_simp) (metis order_le_less)

lemma written_record_dates:
  "column_of (written_record technologies r) ''end_date'' = Some (Col (to_js (s_end_date r)))"
  "column_of (written_record technologies r) ''created_at'' = Some (Col (to_js (s_created_at r)))"
  by (simp_all add: written_record_def column_of_def)

text \<open>
  Without valid dates the language promises no order. Under the sort that reverses what it
  cannot compare consistently, the directories with the end dates 2024-06-30, \<^verbatim>\<open>soon\<close> and
  none give a manifest whose first record is the one without an end date.
\<close>

lemma contrary_sort_conforms: "conforms contrary_sort"
  using insertion_sort_conforms
  unfolding conforms_def contrary_sort_def by auto

lemma open_ended_manifest:
  "map_option (map (\<lambda>p. (project_id p, end_date p)))
     (manifest (build_world contrary_sort some_dates open_ended_world))
     = Some [(3, JStr []), (2, JStr ''soon''), (1, JStr ''2024-06-30'')]"
  by code_simp

text \<open>
  C1, as amended. The sort of the engine is taken with what the language promises of it.
  In a manifest written by the filesystem build whose non-empty end dates are all valid
  dates: of two records with non-empty end dates the one with the later date stands first;
  every record with an empty end date stands after every record with a non-empty one;
  records that tie (both undated, or the same date) stand in the order of their assignment.
  In a manifest written by the database export the records stand in the order of the rows
  read, which descends by the end date, with \<^verbatim>\<open>created_at\<close> taken for an end date that is
  NULL, and then by \<^verbatim>\<open>created_at\<close>, values compared as SQLite compares them: a row with a
  NULL end date is placed by its creation time among the dated rows, not after them.
\<close>

theorem manifest_order:
  "(\<forall>es w' c. conforms srt \<and> projects_root w = RootEntries es
              \<and> build_body srt toTime w [Scanning] = Inr (w', c) \<longrightarrow>
      (\<exists>recs. manifest (build_world srt toTime w) = Some recs
         \<and> (valid_dates toTime recs \<longrightarrow>
               (\<forall>i j. i < length recs \<and> j < length recs \<and> dated (recs ! i) \<and> dated (recs ! j)
                      \<and> end_time toTime (recs ! j) < end_time toTime (recs ! i) \<longrightarrow> i < j)
             \<and> (\<forall>i j. i < length recs \<and> j < length recs \<and> \<not> dated (recs ! i) \<and> dated (recs ! j)
                      \<longrightarrow> j < i)
             \<and> (\<forall>i j. i < j \<and> j < length recs
                      \<and> dated (recs ! i) = dated (recs ! j)
                      \<and> (dated (recs ! i) \<longrightarrow> end_time toTime (recs ! i) = end_time toTime (recs ! j))
                      \<longrightarrow> project_id (recs ! i) < project_id (recs ! j)))))
   \<and> (\<forall>d' c. export_body d = Inr (d', c) \<longrightarrow>
        (\<exists>db' t rs outs.
            database d' = Some db' \<and> projects_table db' = Some t \<and> mset rs = mset (rows t)
          \<and> json (export_world d) = Some outs
          \<and> map (\<lambda>out. column_of out ''end_date'') outs
              = map (\<lambda>r. Some (Col (to_js (s_end_date r)))) rs
          \<and> map (\<lambda>out. column_of out ''created_at'') outs
              = map (\<lambda>r. Some (Col (to_js (s_created_at r)))) rs
          \<and> (\<forall>i j. i < j \<and> j < length rs \<longrightarrow>
                 sql_rank (if s_end_date (rs ! j) \<noteq> SNull then s_end_date (rs ! j)
                           else s_created_at (rs ! j))
                   < sql_rank (if s_end_date (rs ! i) \<noteq> SNull then s_end_date (rs ! i)
                               else s_created_at (rs ! i))
               \<or> (sql_rank (if s_end_date (rs ! j) \<noteq> SNull then s_end_date (rs ! j)
                             else s_created_at (rs ! j))
                    = sql_rank (if s_end_date (rs ! i) \<noteq> SNull then s_end_date (rs ! i)
                                else s_created_at (rs ! i))
                  \<and> sql_rank (s_created_at (rs ! j)) \<le> sql_rank (s_created_at (rs ! i))))))"
proof -
  have fs: "\<exists>recs. manifest (build_world srt toTime w) = Some recs
         \<and> (valid_dates toTime recs \<longrightarrow>
               (\<forall>i j. i < length recs \<and> j < length recs \<and> dated (recs ! i) \<and> dated (recs ! j)
                      \<and> end_time toTime (recs ! j) < end_time toTime (recs ! i) \<longrightarrow> i < j)
             \<and> (\<forall>i j. i < length recs \<and> j < length recs \<and> \<not> dated (recs ! i) \<and> dated (recs ! j)
                      \<longrightarrow> j < i)
             \<and> (\<forall>i j. i < j \<and> j < length recs
                      \<and> dated (recs ! i) = dated (recs ! j)
                      \<and> (dated (recs ! i) \<longrightarrow> end_time toTime (recs ! i) = end_time toTime (recs ! j))
                      \<longrightarrow> project_id (recs ! i) < project_id (recs ! j)))"
    if conf: "conforms srt" and root: "projects_root w = RootEntries es"
      and written: "build_body srt toTime w [Scanning] = Inr (w', c)" for es w' c
  proof -
    from build_body_written [OF root written]
    obtain st where run: "process_folders (public_exists w) es
          \<lparr>console = [Scanning], projects = [], projectId = 1\<rparr> = Inr st"
      and wr: "writable w" by blast
    define recs where "recs = srt (compareEndDate toTime) (projects st)"
    have man: "manifest (build_world srt toTime w) = Some recs"
      using build_written(1) [OF root wr run, of srt toTime] by (simp add: recs_def)
    have "map project_id (projects st)
        = [1 ..< 1 + length (filter (\<lambda>(f, d). emits d) (candidates es))]"
      using process_folders_records [OF run] enumerated_ids [of "public_exists w" 1]
      by simp
    then have ids: "sorted_wrt (<) (map project_id (projects st))"
      by (simp only: sorted_wrt_upt)
    have order: "(\<forall>i j. i < length recs \<and> j < length recs \<and> dated (recs ! i) \<and> dated (recs ! j)
                      \<and> end_time toTime (recs ! j) < end_time toTime (recs ! i) \<longrightarrow> i < j)
             \<and> (\<forall>i j. i < length recs \<and> j < length recs \<and> \<not> dated (recs ! i) \<and> dated (recs ! j)
                      \<longrightarrow> j < i)
             \<and> (\<forall>i j. i < j \<and> j < length recs
                      \<and> dated (recs ! i) = dated (recs ! j)
                      \<and> (dated (recs ! i) \<longrightarrow> end_time toTime (recs ! i) = end_time toTime (recs ! j))
                      \<longrightarrow> project_id (recs ! i) < project_id (recs ! j))"
      if v: "valid_dates toTime recs"
    proof -
      from conf have "mset recs = mset (projects st)" unfolding conforms_def recs_def by blast
      then have "set recs = set (projects st)" by (rule mset_eq_setD)
      with v have valid: "valid_dates toTime (projects st)"
        by (simp add: valid_dates_def list_all_iff)
      note srt = conforming_sort_end_dates [OF conf valid ids, folded recs_def]
      note pos = key_order_positions [OF srt(1)]
      have tie: "project_id (recs ! i) < project_id (recs ! j)"
        if "i < j" "j < length recs" "dated (recs ! i) = dated (recs ! j)"
          "dated (recs ! i) \<longrightarrow> end_time toTime (recs ! i) = end_time toTime (recs ! j)" for i j
      proof -
        from that(3,4) have "end_key toTime (recs ! i) = end_key toTime (recs ! j)"
          by (auto simp: end_key_def)
        with srt(2) that(1,2) show ?thesis by blast
      qed
      from pos tie show ?thesis by blast
    qed
    from man order show ?thesis by blast
  qed
  have db: "\<exists>db' t rs outs.
            database d' = Some db' \<and> projects_table db' = Some t \<and> mset rs = mset (rows t)
          \<and> json (export_world d) = Some outs
          \<and> map (\<lambda>out. column_of out ''end_date'') outs
              = map (\<lambda>r. Some (Col (to_js (s_end_date r)))) rs
          \<and> map (\<lambda>out. column_of out ''created_at'') outs
              = map (\<lambda>r. Some (Col (to_js (s_created_at r)))) rs
          \<and> (\<forall>i j. i < j \<and> j < length rs \<longrightarrow>
                 sql_rank (if s_end_date (rs ! j) \<noteq> SNull then s_end_date (rs ! j)
                           else s_created_at (rs ! j))
                   < sql_rank (if s_end_date (rs ! i) \<noteq> SNull then s_end_date (rs ! i)
                               else s_created_at (rs ! i))
               \<or> (sql_rank (if s_end_date (rs ! j) \<noteq> SNull then s_end_date (rs ! j)
                             else s_created_at (rs ! j))
                    = sql_rank (if s_end_date (rs ! i) \<noteq> SNull then s_end_date (rs ! i)
                                else s_created_at (rs ! i))
                  \<and> sql_rank (s_created_at (rs ! j)) \<le> sql_rank (s_created_at (rs ! i))))"
    if ok: "export_body d = Inr (d', c)" for d' c
  proof -
    from export_body_Inr [OF ok]
    obtain db' t tt where e: "database d' = Some db'" "projects_table db' = Some t"
      and tt: "technologies_table db' = Some tt"
      and out: "json d' = Some (map (written_record (tech_rows tt)) (order_by (rows t)))"
      by blast
    define rs where "rs = order_by (rows t)"
    define outs where "outs = map (written_record (tech_rows tt)) rs"
    have ms: "mset rs = mset (rows t)" by (simp add: rs_def mset_order_by)
    have js: "json (export_world d) = Some outs"
      using out export_world_Inr [OF ok] by (simp add: outs_def rs_def)
    have "sorted_wrt (\<lambda>a b. order_key b \<le> order_key a) rs"
      by (simp add: rs_def sorted_order_by)
    then have ord: "order_key (rs ! j) \<le> order_key (rs ! i)"
      if "i < j" "j < length rs" for i j
      using that by (simp add: sorted_wrt_iff_nth_less)
    have ord': "sql_rank (if s_end_date (rs ! j) \<noteq> SNull then s_end_date (rs ! j)
                           else s_created_at (rs ! j))
                   < sql_rank (if s_end_date (rs ! i) \<noteq> SNull then s_end_date (rs ! i)
                               else s_created_at (rs ! i))
               \<or> (sql_rank (if s_end_date (rs ! j) \<noteq> SNull then s_end_date (rs ! j)
                             else s_created_at (rs ! j))
                    = sql_rank (if s_end_date (rs ! i) \<noteq> SNull then s_end_date (rs ! i)
                                else s_created_at (rs ! i))
                  \<and> sql_rank (s_created_at (rs ! j)) \<le> sql_rank (s_created_at (rs ! i)))"
      if "i < j" "j < length rs" for i j
      using ord [OF that] by (simp only: order_key_def order_term_def pair_le_iff)
    have cols: "map (\<lambda>out. column_of out ''end_date'') outs
              = map (\<lambda>r. Some (Col (to_js (s_end_date r)))) rs"
       "map (\<lambda>out. column_of out ''created_at'') outs
              = map (\<lambda>r. Some (Col (to_js (s_created_at r)))) rs"
      by (simp_all add: outs_def written_record_dates comp_def)
    from e ms js cols ord' show ?thesis by blast
  qed
  from fs db show ?thesis by blast
qed

lemma four_folders_manifest:
  "map_option (\<lambda>recs. (valid_dates some_dates recs, map project_id recs, map dated recs,
                        map (end_time some_dates) recs))
     (manifest (build_world insertion_sort some_dates four_folders_world))
   = Some (True, [3, 1, 2], [True, True, False], [1723680000000, 1719705600000, 0])"
  by code_simp

lemma two_rows_export_dates:
  "export_exit_code two_rows_world = 0
   \<and> map_option (map (\<lambda>out. (column_of out ''id'', column_of out ''end_date'')))
        (json (export_world two_rows_world))
       = Some [(Some (Col (SInt 9)), Some (Col SNull)),
               (Some (Col (SInt 7)), Some (Col (SText ''2024-06-30'')))]"
  by code_simp

theorem manifest_order_witness:
  "conforms (insertion_sort :: (project \<Rightarrow> project \<Rightarrow> int option) \<Rightarrow> project list \<Rightarrow> project list)
   \<and> projects_root four_folders_world = RootEntries four_folders
   \<and> (\<exists>w' c. build_body insertion_sort some_dates four_folders_world [Scanning] = Inr (w', c))
   \<and> (\<exists>recs. manifest (build_world insertion_sort some_dates four_folders_world) = Some recs
         \<and> valid_dates some_dates recs
         \<and> map project_id recs = [3, 1, 2]
         \<and> map dated recs = [True, True, False]
         \<and> map (end_time some_dates) recs = [1723680000000, 1719705600000, 0]
         \<and> (\<forall>i j. i < length recs \<and> j < length recs \<and> dated (recs ! i) \<and> dated (recs ! j)
                  \<and> end_time some_dates (recs ! j) < end_time some_dates (recs ! i) \<longrightarrow> i < j)
         \<and> (\<forall>i j. i < length recs \<and> j < length recs \<and> \<not> dated (recs ! i) \<and> dated (recs ! j)
                  \<longrightarrow> j < i))
   \<and> (\<exists>d' c. export_body two_rows_world = Inr (d', c))
   \<and> (\<exists>rs :: stored_row list. length rs = 2
         \<and> (\<forall>i j. i < j \<and> j < length rs \<longrightarrow>
                 sql_rank (if s_end_date (rs ! j) \<noteq> SNull then s_end_date (rs ! j)
                           else s_created_at (rs ! j))
                   < sql_rank (if s_end_date (rs ! i) \<noteq> SNull then s_end_date (rs ! i)
                               else s_created_at (rs ! i))
               \<or> (sql_rank (if s_end_date (rs ! j) \<noteq> SNull then s_end_date (rs ! j)
                             else s_created_at (rs ! j))
                    = sql_rank (if s_end_date (rs ! i) \<noteq> SNull then s_end_date (rs ! i)
                                else s_created_at (rs ! i))
                  \<and> sql_rank (s_created_at (rs ! j)) \<le> sql_rank (s_created_at (rs ! i)))))"
proof -
  have conf: "conforms (insertion_sort :: (project \<Rightarrow> project \<Rightarrow> int option) \<Rightarrow> project list \<Rightarrow> project list)"
    by (rule insertion_sort_conforms)
  have root: "projects_root four_folders_world = RootEntries four_folders"
    by (simp add: four_folders_world_def)
  have ex_written:
    "\<exists>w' c. build_body insertion_sort some_dates four_folders_world [Scanning] = Inr (w', c)"
    by (rule build_body_total [OF root])
       (simp_all add: four_folders_world_def four_folders_def all_stat_def)
  then obtain w' c where
    written: "build_body insertion_sort some_dates four_folders_world [Scanning] = Inr (w', c)"
    by (elim exE)
  have ex_ok: "\<exists>d' c. export_body two_rows_world = Inr (d', c)"
    by (rule export_succeeds) (rule two_rows_export_dates [THEN conjunct1])
  then obtain d' c' where ok: "export_body two_rows_world = Inr (d', c')"
    by (elim exE)
  note main = manifest_order [of insertion_sort four_folders_world some_dates two_rows_world]
  note fs = main [THEN conjunct1, rule_format, OF conjI [OF conf conjI [OF root written]]]
  note db = main [THEN conjunct2, rule_format, OF ok]
  from fs obtain recs where
    recs: "manifest (build_world insertion_sort some_dates four_folders_world) = Some recs"
    and ord: "valid_dates some_dates recs \<longrightarrow>
               (\<forall>i j. i < length recs \<and> j < length recs \<and> dated (recs ! i) \<and> dated (recs ! j)
                      \<and> end_time some_dates (recs ! j) < end_time some_dates (recs ! i) \<longrightarrow> i < j)
             \<and> (\<forall>i j. i < length recs \<and> j < length recs \<and> \<not> dated (recs ! i) \<and> dated (recs ! j)
                      \<longrightarrow> j < i)
             \<and> (\<forall>i j. i < j \<and> j < length recs
                      \<and> dated (recs ! i) = dated (recs ! j)
                      \<and> (dated (recs ! i) \<longrightarrow> end_time some_dates (recs ! i) = end_time some_dates (recs ! j))
                      \<longrightarrow> project_id (recs ! i) < project_id (recs ! j))"
    by (elim exE conjE)
  from four_folders_manifest recs
  have vals: "valid_dates some_dates recs" "map project_id recs = [3, 1, 2]"
    "map dated recs = [True, True, False]"
    "map (end_time some_dates) recs = [1723680000000, 1719705600000, 0]"
    by simp_all
  note o = mp [OF ord vals(1)]
  have fsw: "\<exists>recs. manifest (build_world insertion_sort some_dates four_folders_world) = Some recs
         \<and> valid_dates some_dates recs
         \<and> map project_id recs = [3, 1, 2]
         \<and> map dated recs = [True, True, False]
         \<and> map (end_time some_dates) recs = [1723680000000, 1719705600000, 0]
         \<and> (\<forall>i j. i < length recs \<and> j < length recs \<and> dated (recs ! i) \<and> dated (recs ! j)
                  \<and> end_time some_dates (recs ! j) < end_time some_dates (recs ! i) \<longrightarrow> i < j)
         \<and> (\<forall>i j. i < length recs \<and> j < length recs \<and> \<not> dated (recs ! i) \<and> dated (recs ! j)
                  \<longrightarrow> j < i)"
    by (rule exI [of _ recs])
       (intro conjI recs vals o [THEN conjunct1] o [THEN conjunct2, THEN conjunct1])
  from db obtain db' t and rs :: "stored_row list" and outs where
    p: "json (export_world two_rows_world) = Some outs"
      "map (\<lambda>out. column_of out ''end_date'') outs
              = map (\<lambda>r. Some (Col (to_js (s_end_date r)))) rs"
    and pord: "\<forall>i j. i < j \<and> j < length rs \<longrightarrow>
                 sql_rank (if s_end_date (rs ! j) \<noteq> SNull then s_end_date (rs ! j)
                           else s_created_at (rs ! j))
                   < sql_rank (if s_end_date (rs ! i) \<noteq> SNull then s_end_date (rs ! i)
                               else s_created_at (rs ! i))
               \<or> (sql_rank (if s_end_date (rs ! j) \<noteq> SNull then s_end_date (rs ! j)
                             else s_created_at (rs ! j))
                    = sql_rank (if s_end_date (rs ! i) \<noteq> SNull then s_end_date (rs ! i)
                                else s_created_at (rs ! i))
                  \<and> sql_rank (s_created_at (rs ! j)) \<le> sql_rank (s_created_at (rs ! i)))"
    by (elim exE conjE)
  from two_rows_export_dates p(1) have "length outs = 2" by auto
  with p(2) have len: "length rs = 2" by (metis length_map)
  have dbw: "\<exists>rs :: stored_row list. length rs = 2
         \<and> (\<forall>i j. i < j \<and> j < length rs \<longrightarrow>
                 sql_rank (if s_end_date (rs ! j) \<noteq> SNull then s_end_date (rs ! j)
                           else s_created_at (rs ! j))
                   < sql_rank (if s_end_date (rs ! i) \<noteq> SNull then s_end_date (rs ! i)
                               else s_created_at (rs ! i))
               \<or> (sql_rank (if s_end_date (rs ! j) \<noteq> SNull then s_end_date (rs ! j)
                             else s_created_at (rs ! j))
                    = sql_rank (if s_end_date (rs ! i) \<noteq> SNull then s_end_date (rs ! i)
                                else s_created_at (rs ! i))
                  \<and> sql_rank (s_created_at (rs ! j)) \<le> sql_rank (s_created_at (rs ! i))))"
    by (rule exI [of _ rs]) (intro conjI len pord)
  show ?thesis
    by (intro conjI conf root ex_written fsw ex_ok dbw)
qed

text \<open>
  Two rows: one that ended on 2024-06-30, and one with a NULL end date that was created
  on 2025-01-01. The export writes the row without an end date first. And three
  directories with the end dates 2024-06-30, \<^verbatim>\<open>soon\<close> and 2024-08-15, sorted by insertion:
  every comparison with the date that is none yields NaN, the records stay as they were
  assembled, and the record that ended on 2024-08-15 stands after the one that ended on
  2024-06-30.
\<close>

theorem undated_row_first_counterexample:
  "export_exit_code two_rows_world = 0
   \<and> s_end_date legacy_row = SText ''2024-06-30''
   \<and> s_end_date undated_row = SNull
   \<and> map_option (map (\<lambda>out. (column_of out ''id'', column_of out ''end_date'')))
        (json (export_world two_rows_world))
       = Some [(Some (Col (SInt 9)), Some (Col SNull)),
               (Some (Col (SInt 7)), Some (Col (SText ''2024-06-30'')))]
   \<and> map_option (map (\<lambda>p. (project_id p, end_date p)))
        (manifest (build_world insertion_sort some_dates invalid_date_world))
       = Some [(1, JStr ''2024-06-30''), (2, JStr ''soon''), (3, JStr ''2024-08-15'')]
   \<and> some_dates (JStr ''soon'') = None
   \<and> compareEndDate some_dates
        (record_of (\<lambda>p. False) 2 ''soon'' soon_dir) (record_of (\<lambda>p. False) 1 ''alpha'' alpha_dir)
       = None"
  by code_simp

end
